theory Spec2Isabelle
  imports Complex_Main "HOL-Library.List_Lexorder" "HOL-Library.Product_Lexorder"
    "HOL-Library.Sublist"
begin

section \<open>Strings\<close>

text \<open>
  A Python \<open>str\<close> is a sequence of Unicode code points, and \<open>len\<close> counts code
  points; a code point is a natural number here. \<open>S\<close> turns an ASCII literal into
  such a string. Bytes (of a UTF-8 encoding) are natural numbers below 256.

  What depends on the Unicode character database is written out: \<open>isspace\<close> is the
  full list of code points that \<open>str.isspace\<close>, \<open>str.strip\<close> and the regular
  expression \<open>\s\<close> accept; \<open>ci_eq\<close> is case-insensitive matching of a lower-case
  ASCII pattern letter (with the three non-ASCII letters that \<open>re.I\<close> folds onto s, k
  and i); \<open>lower\<close> is \<open>str.lower\<close> with its tables.
\<close>

type_synonym str = "nat list"

definition S :: "string \<Rightarrow> str" where
  "S cs = map of_char cs"

definition isspace :: "nat \<Rightarrow> bool" where
  "isspace c \<longleftrightarrow>
     (9 \<le> c \<and> c \<le> 13) \<or> (28 \<le> c \<and> c \<le> 32) \<or> c = 0x85 \<or> c = 0xA0 \<or> c = 0x1680 \<or>
     (0x2000 \<le> c \<and> c \<le> 0x200A) \<or> c = 0x2028 \<or> c = 0x2029 \<or> c = 0x202F \<or>
     c = 0x205F \<or> c = 0x3000"

definition is_upper :: "nat \<Rightarrow> bool" where
  "is_upper c \<longleftrightarrow> 65 \<le> c \<and> c \<le> 90"

definition is_lower :: "nat \<Rightarrow> bool" where
  "is_lower c \<longleftrightarrow> 97 \<le> c \<and> c \<le> 122"

definition is_digit :: "nat \<Rightarrow> bool" where
  "is_digit c \<longleftrightarrow> 48 \<le> c \<and> c \<le> 57"

definition is_alpha :: "nat \<Rightarrow> bool" where
  "is_alpha c \<longleftrightarrow> is_upper c \<or> is_lower c"

definition ascii_lower :: "nat \<Rightarrow> nat" where
  "ascii_lower c = (if is_upper c then c + 32 else c)"

text \<open>\<open>s.strip()\<close>\<close>

definition strip :: "str \<Rightarrow> str" where
  "strip s = rev (dropWhile isspace (rev (dropWhile isspace s)))"

text \<open>\<open>re.sub(r"\s+", " ", s)\<close>: every maximal run of whitespace becomes one space.\<close>

function sub_ws :: "str \<Rightarrow> str" where
  "sub_ws [] = []"
| "sub_ws (c # cs) = (if isspace c then 32 # sub_ws (dropWhile isspace cs) else c # sub_ws cs)"
  by pat_completeness auto
termination
  by (relation "measure length") (auto simp: less_Suc_eq_le length_dropWhile_le)

text \<open>Case-insensitive match of one pattern letter \<open>p\<close> (lower case) against \<open>c\<close>.\<close>

definition ci_eq :: "nat \<Rightarrow> nat \<Rightarrow> bool" where
  "ci_eq p c \<longleftrightarrow>
     c = p \<or> (is_lower p \<and> c + 32 = p) \<or> (p = 115 \<and> c = 0x17F) \<or> (p = 107 \<and> c = 0x212A) \<or>
     (p = 105 \<and> (c = 0x130 \<or> c = 0x131))"

text \<open>The text starts with the pattern, compared case-insensitively.\<close>

fun ci_prefix :: "str \<Rightarrow> str \<Rightarrow> bool" where
  "ci_prefix [] s = True"
| "ci_prefix (p # ps) [] = False"
| "ci_prefix (p # ps) (c # cs) = (ci_eq p c \<and> ci_prefix ps cs)"

subsection \<open>Lower case\<close>

text \<open>
  \<open>str.lower\<close> follows the Unicode character database, here in version 14.0.0, that of
  CPython 3.11. A row \<open>(a, b, k, t)\<close> of \<open>lower_table\<close> stands for the code points
  \<open>a\<close>, \<open>a + k\<close>, ..., \<open>b\<close>, and \<open>a + i\<close> is mapped to \<open>t + i\<close>; the table holds
  every code point above U+007F with a lower-case mapping of one code point, but the capital sigma.
\<close>

definition lower_table :: "(nat \<times> nat \<times> nat \<times> nat) list" where
  "lower_table =
    [(0xC0, 0xD6, 1, 0xE0), (0xD8, 0xDE, 1, 0xF8), (0x100, 0x12E, 2, 0x101), (0x132, 0x136, 2, 0x133),
     (0x139, 0x147, 2, 0x13A), (0x14A, 0x176, 2, 0x14B), (0x178, 0x178, 1, 0xFF), (0x179, 0x17D, 2, 0x17A),
     (0x181, 0x181, 1, 0x253), (0x182, 0x184, 2, 0x183), (0x186, 0x186, 1, 0x254), (0x187, 0x187, 1, 0x188),
     (0x189, 0x18A, 1, 0x256), (0x18B, 0x18B, 1, 0x18C), (0x18E, 0x18E, 1, 0x1DD), (0x18F, 0x18F, 1, 0x259),
     (0x190, 0x190, 1, 0x25B), (0x191, 0x191, 1, 0x192), (0x193, 0x193, 1, 0x260), (0x194, 0x194, 1, 0x263),
     (0x196, 0x196, 1, 0x269), (0x197, 0x197, 1, 0x268), (0x198, 0x198, 1, 0x199), (0x19C, 0x19C, 1, 0x26F),
     (0x19D, 0x19D, 1, 0x272), (0x19F, 0x19F, 1, 0x275), (0x1A0, 0x1A4, 2, 0x1A1), (0x1A6, 0x1A6, 1, 0x280),
     (0x1A7, 0x1A7, 1, 0x1A8), (0x1A9, 0x1A9, 1, 0x283), (0x1AC, 0x1AC, 1, 0x1AD), (0x1AE, 0x1AE, 1, 0x288),
     (0x1AF, 0x1AF, 1, 0x1B0), (0x1B1, 0x1B2, 1, 0x28A), (0x1B3, 0x1B5, 2, 0x1B4), (0x1B7, 0x1B7, 1, 0x292),
     (0x1B8, 0x1B8, 1, 0x1B9), (0x1BC, 0x1BC, 1, 0x1BD), (0x1C4, 0x1C4, 1, 0x1C6), (0x1C5, 0x1C5, 1, 0x1C6),
     (0x1C7, 0x1C7, 1, 0x1C9), (0x1C8, 0x1C8, 1, 0x1C9), (0x1CA, 0x1CA, 1, 0x1CC), (0x1CB, 0x1DB, 2, 0x1CC),
     (0x1DE, 0x1EE, 2, 0x1DF), (0x1F1, 0x1F1, 1, 0x1F3), (0x1F2, 0x1F4, 2, 0x1F3), (0x1F6, 0x1F6, 1, 0x195),
     (0x1F7, 0x1F7, 1, 0x1BF), (0x1F8, 0x21E, 2, 0x1F9), (0x220, 0x220, 1, 0x19E), (0x222, 0x232, 2, 0x223),
     (0x23A, 0x23A, 1, 0x2C65), (0x23B, 0x23B, 1, 0x23C), (0x23D, 0x23D, 1, 0x19A), (0x23E, 0x23E, 1, 0x2C66),
     (0x241, 0x241, 1, 0x242), (0x243, 0x243, 1, 0x180), (0x244, 0x244, 1, 0x289), (0x245, 0x245, 1, 0x28C),
     (0x246, 0x24E, 2, 0x247), (0x370, 0x372, 2, 0x371), (0x376, 0x376, 1, 0x377), (0x37F, 0x37F, 1, 0x3F3),
     (0x386, 0x386, 1, 0x3AC), (0x388, 0x38A, 1, 0x3AD), (0x38C, 0x38C, 1, 0x3CC), (0x38E, 0x38F, 1, 0x3CD),
     (0x391, 0x3A1, 1, 0x3B1), (0x3A4, 0x3AB, 1, 0x3C4), (0x3CF, 0x3CF, 1, 0x3D7), (0x3D8, 0x3EE, 2, 0x3D9),
     (0x3F4, 0x3F4, 1, 0x3B8), (0x3F7, 0x3F7, 1, 0x3F8), (0x3F9, 0x3F9, 1, 0x3F2), (0x3FA, 0x3FA, 1, 0x3FB),
     (0x3FD, 0x3FF, 1, 0x37B), (0x400, 0x40F, 1, 0x450), (0x410, 0x42F, 1, 0x430), (0x460, 0x480, 2, 0x461),
     (0x48A, 0x4BE, 2, 0x48B), (0x4C0, 0x4C0, 1, 0x4CF), (0x4C1, 0x4CD, 2, 0x4C2), (0x4D0, 0x52E, 2, 0x4D1),
     (0x531, 0x556, 1, 0x561), (0x10A0, 0x10C5, 1, 0x2D00), (0x10C7, 0x10C7, 1, 0x2D27), (0x10CD, 0x10CD, 1, 0x2D2D),
     (0x13A0, 0x13EF, 1, 0xAB70), (0x13F0, 0x13F5, 1, 0x13F8), (0x1C90, 0x1CBA, 1, 0x10D0), (0x1CBD, 0x1CBF, 1, 0x10FD),
     (0x1E00, 0x1E94, 2, 0x1E01), (0x1E9E, 0x1E9E, 1, 0xDF), (0x1EA0, 0x1EFE, 2, 0x1EA1), (0x1F08, 0x1F0F, 1, 0x1F00),
     (0x1F18, 0x1F1D, 1, 0x1F10), (0x1F28, 0x1F2F, 1, 0x1F20), (0x1F38, 0x1F3F, 1, 0x1F30), (0x1F48, 0x1F4D, 1, 0x1F40),
     (0x1F59, 0x1F5F, 2, 0x1F51), (0x1F68, 0x1F6F, 1, 0x1F60), (0x1F88, 0x1F8F, 1, 0x1F80), (0x1F98, 0x1F9F, 1, 0x1F90),
     (0x1FA8, 0x1FAF, 1, 0x1FA0), (0x1FB8, 0x1FB9, 1, 0x1FB0), (0x1FBA, 0x1FBB, 1, 0x1F70), (0x1FBC, 0x1FBC, 1, 0x1FB3),
     (0x1FC8, 0x1FCB, 1, 0x1F72), (0x1FCC, 0x1FCC, 1, 0x1FC3), (0x1FD8, 0x1FD9, 1, 0x1FD0), (0x1FDA, 0x1FDB, 1, 0x1F76),
     (0x1FE8, 0x1FE9, 1, 0x1FE0), (0x1FEA, 0x1FEB, 1, 0x1F7A), (0x1FEC, 0x1FEC, 1, 0x1FE5), (0x1FF8, 0x1FF9, 1, 0x1F78),
     (0x1FFA, 0x1FFB, 1, 0x1F7C), (0x1FFC, 0x1FFC, 1, 0x1FF3), (0x2126, 0x2126, 1, 0x3C9), (0x212A, 0x212A, 1, 0x6B),
     (0x212B, 0x212B, 1, 0xE5), (0x2132, 0x2132, 1, 0x214E), (0x2160, 0x216F, 1, 0x2170), (0x2183, 0x2183, 1, 0x2184),
     (0x24B6, 0x24CF, 1, 0x24D0), (0x2C00, 0x2C2F, 1, 0x2C30), (0x2C60, 0x2C60, 1, 0x2C61), (0x2C62, 0x2C62, 1, 0x26B),
     (0x2C63, 0x2C63, 1, 0x1D7D), (0x2C64, 0x2C64, 1, 0x27D), (0x2C67, 0x2C6B, 2, 0x2C68), (0x2C6D, 0x2C6D, 1, 0x251),
     (0x2C6E, 0x2C6E, 1, 0x271), (0x2C6F, 0x2C6F, 1, 0x250), (0x2C70, 0x2C70, 1, 0x252), (0x2C72, 0x2C72, 1, 0x2C73),
     (0x2C75, 0x2C75, 1, 0x2C76), (0x2C7E, 0x2C7F, 1, 0x23F), (0x2C80, 0x2CE2, 2, 0x2C81), (0x2CEB, 0x2CED, 2, 0x2CEC),
     (0x2CF2, 0x2CF2, 1, 0x2CF3), (0xA640, 0xA66C, 2, 0xA641), (0xA680, 0xA69A, 2, 0xA681), (0xA722, 0xA72E, 2, 0xA723),
     (0xA732, 0xA76E, 2, 0xA733), (0xA779, 0xA77B, 2, 0xA77A), (0xA77D, 0xA77D, 1, 0x1D79), (0xA77E, 0xA786, 2, 0xA77F),
     (0xA78B, 0xA78B, 1, 0xA78C), (0xA78D, 0xA78D, 1, 0x265), (0xA790, 0xA792, 2, 0xA791), (0xA796, 0xA7A8, 2, 0xA797),
     (0xA7AA, 0xA7AA, 1, 0x266), (0xA7AB, 0xA7AB, 1, 0x25C), (0xA7AC, 0xA7AC, 1, 0x261), (0xA7AD, 0xA7AD, 1, 0x26C),
     (0xA7AE, 0xA7AE, 1, 0x26A), (0xA7B0, 0xA7B0, 1, 0x29E), (0xA7B1, 0xA7B1, 1, 0x287), (0xA7B2, 0xA7B2, 1, 0x29D),
     (0xA7B3, 0xA7B3, 1, 0xAB53), (0xA7B4, 0xA7C2, 2, 0xA7B5), (0xA7C4, 0xA7C4, 1, 0xA794), (0xA7C5, 0xA7C5, 1, 0x282),
     (0xA7C6, 0xA7C6, 1, 0x1D8E), (0xA7C7, 0xA7C9, 2, 0xA7C8), (0xA7D0, 0xA7D0, 1, 0xA7D1), (0xA7D6, 0xA7D8, 2, 0xA7D7),
     (0xA7F5, 0xA7F5, 1, 0xA7F6), (0xFF21, 0xFF3A, 1, 0xFF41), (0x10400, 0x10427, 1, 0x10428), (0x104B0, 0x104D3, 1, 0x104D8),
     (0x10570, 0x1057A, 1, 0x10597), (0x1057C, 0x1058A, 1, 0x105A3), (0x1058C, 0x10592, 1, 0x105B3), (0x10594, 0x10595, 1, 0x105BB),
     (0x10C80, 0x10CB2, 1, 0x10CC0), (0x118A0, 0x118BF, 1, 0x118C0), (0x16E40, 0x16E5F, 1, 0x16E60), (0x1E900, 0x1E921, 1, 0x1E922)]"

text \<open>The code points with the property \<open>Case_Ignorable\<close>, as ranges.\<close>

definition case_ignorable_table :: "(nat \<times> nat) list" where
  "case_ignorable_table =
    [(0x27, 0x27), (0x2E, 0x2E), (0x3A, 0x3A), (0x5E, 0x5E), (0x60, 0x60), (0xA8, 0xA8),
     (0xAD, 0xAD), (0xAF, 0xAF), (0xB4, 0xB4), (0xB7, 0xB8), (0x2B0, 0x36F), (0x374, 0x375),
     (0x37A, 0x37A), (0x384, 0x385), (0x387, 0x387), (0x483, 0x489), (0x559, 0x559), (0x55F, 0x55F),
     (0x591, 0x5BD), (0x5BF, 0x5BF), (0x5C1, 0x5C2), (0x5C4, 0x5C5), (0x5C7, 0x5C7), (0x5F4, 0x5F4),
     (0x600, 0x605), (0x610, 0x61A), (0x61C, 0x61C), (0x640, 0x640), (0x64B, 0x65F), (0x670, 0x670),
     (0x6D6, 0x6DD), (0x6DF, 0x6E8), (0x6EA, 0x6ED), (0x70F, 0x70F), (0x711, 0x711), (0x730, 0x74A),
     (0x7A6, 0x7B0), (0x7EB, 0x7F5), (0x7FA, 0x7FA), (0x7FD, 0x7FD), (0x816, 0x82D), (0x859, 0x85B),
     (0x888, 0x888), (0x890, 0x891), (0x898, 0x89F), (0x8C9, 0x902), (0x93A, 0x93A), (0x93C, 0x93C),
     (0x941, 0x948), (0x94D, 0x94D), (0x951, 0x957), (0x962, 0x963), (0x971, 0x971), (0x981, 0x981),
     (0x9BC, 0x9BC), (0x9C1, 0x9C4), (0x9CD, 0x9CD), (0x9E2, 0x9E3), (0x9FE, 0x9FE), (0xA01, 0xA02),
     (0xA3C, 0xA3C), (0xA41, 0xA42), (0xA47, 0xA48), (0xA4B, 0xA4D), (0xA51, 0xA51), (0xA70, 0xA71),
     (0xA75, 0xA75), (0xA81, 0xA82), (0xABC, 0xABC), (0xAC1, 0xAC5), (0xAC7, 0xAC8), (0xACD, 0xACD),
     (0xAE2, 0xAE3), (0xAFA, 0xAFF), (0xB01, 0xB01), (0xB3C, 0xB3C), (0xB3F, 0xB3F), (0xB41, 0xB44),
     (0xB4D, 0xB4D), (0xB55, 0xB56), (0xB62, 0xB63), (0xB82, 0xB82), (0xBC0, 0xBC0), (0xBCD, 0xBCD),
     (0xC00, 0xC00), (0xC04, 0xC04), (0xC3C, 0xC3C), (0xC3E, 0xC40), (0xC46, 0xC48), (0xC4A, 0xC4D),
     (0xC55, 0xC56), (0xC62, 0xC63), (0xC81, 0xC81), (0xCBC, 0xCBC), (0xCBF, 0xCBF), (0xCC6, 0xCC6),
     (0xCCC, 0xCCD), (0xCE2, 0xCE3), (0xD00, 0xD01), (0xD3B, 0xD3C), (0xD41, 0xD44), (0xD4D, 0xD4D),
     (0xD62, 0xD63), (0xD81, 0xD81), (0xDCA, 0xDCA), (0xDD2, 0xDD4), (0xDD6, 0xDD6), (0xE31, 0xE31),
     (0xE34, 0xE3A), (0xE46, 0xE4E), (0xEB1, 0xEB1), (0xEB4, 0xEBC), (0xEC6, 0xEC6), (0xEC8, 0xECD),
     (0xF18, 0xF19), (0xF35, 0xF35), (0xF37, 0xF37), (0xF39, 0xF39), (0xF71, 0xF7E), (0xF80, 0xF84),
     (0xF86, 0xF87), (0xF8D, 0xF97), (0xF99, 0xFBC), (0xFC6, 0xFC6), (0x102D, 0x1030), (0x1032, 0x1037),
     (0x1039, 0x103A), (0x103D, 0x103E), (0x1058, 0x1059), (0x105E, 0x1060), (0x1071, 0x1074), (0x1082, 0x1082),
     (0x1085, 0x1086), (0x108D, 0x108D), (0x109D, 0x109D), (0x10FC, 0x10FC), (0x135D, 0x135F), (0x1712, 0x1714),
     (0x1732, 0x1733), (0x1752, 0x1753), (0x1772, 0x1773), (0x17B4, 0x17B5), (0x17B7, 0x17BD), (0x17C6, 0x17C6),
     (0x17C9, 0x17D3), (0x17D7, 0x17D7), (0x17DD, 0x17DD), (0x180B, 0x180F), (0x1843, 0x1843), (0x1885, 0x1886),
     (0x18A9, 0x18A9), (0x1920, 0x1922), (0x1927, 0x1928), (0x1932, 0x1932), (0x1939, 0x193B), (0x1A17, 0x1A18),
     (0x1A1B, 0x1A1B), (0x1A56, 0x1A56), (0x1A58, 0x1A5E), (0x1A60, 0x1A60), (0x1A62, 0x1A62), (0x1A65, 0x1A6C),
     (0x1A73, 0x1A7C), (0x1A7F, 0x1A7F), (0x1AA7, 0x1AA7), (0x1AB0, 0x1ACE), (0x1B00, 0x1B03), (0x1B34, 0x1B34),
     (0x1B36, 0x1B3A), (0x1B3C, 0x1B3C), (0x1B42, 0x1B42), (0x1B6B, 0x1B73), (0x1B80, 0x1B81), (0x1BA2, 0x1BA5),
     (0x1BA8, 0x1BA9), (0x1BAB, 0x1BAD), (0x1BE6, 0x1BE6), (0x1BE8, 0x1BE9), (0x1BED, 0x1BED), (0x1BEF, 0x1BF1),
     (0x1C2C, 0x1C33), (0x1C36, 0x1C37), (0x1C78, 0x1C7D), (0x1CD0, 0x1CD2), (0x1CD4, 0x1CE0), (0x1CE2, 0x1CE8),
     (0x1CED, 0x1CED), (0x1CF4, 0x1CF4), (0x1CF8, 0x1CF9), (0x1D2C, 0x1D6A), (0x1D78, 0x1D78), (0x1D9B, 0x1DFF),
     (0x1FBD, 0x1FBD), (0x1FBF, 0x1FC1), (0x1FCD, 0x1FCF), (0x1FDD, 0x1FDF), (0x1FED, 0x1FEF), (0x1FFD, 0x1FFE),
     (0x200B, 0x200F), (0x2018, 0x2019), (0x2024, 0x2024), (0x2027, 0x2027), (0x202A, 0x202E), (0x2060, 0x2064),
     (0x2066, 0x206F), (0x2071, 0x2071), (0x207F, 0x207F), (0x2090, 0x209C), (0x20D0, 0x20F0), (0x2C7C, 0x2C7D),
     (0x2CEF, 0x2CF1), (0x2D6F, 0x2D6F), (0x2D7F, 0x2D7F), (0x2DE0, 0x2DFF), (0x2E2F, 0x2E2F), (0x3005, 0x3005),
     (0x302A, 0x302D), (0x3031, 0x3035), (0x303B, 0x303B), (0x3099, 0x309E), (0x30FC, 0x30FE), (0xA015, 0xA015),
     (0xA4F8, 0xA4FD), (0xA60C, 0xA60C), (0xA66F, 0xA672), (0xA674, 0xA67D), (0xA67F, 0xA67F), (0xA69C, 0xA69F),
     (0xA6F0, 0xA6F1), (0xA700, 0xA721), (0xA770, 0xA770), (0xA788, 0xA78A), (0xA7F2, 0xA7F4), (0xA7F8, 0xA7F9),
     (0xA802, 0xA802), (0xA806, 0xA806), (0xA80B, 0xA80B), (0xA825, 0xA826), (0xA82C, 0xA82C), (0xA8C4, 0xA8C5),
     (0xA8E0, 0xA8F1), (0xA8FF, 0xA8FF), (0xA926, 0xA92D), (0xA947, 0xA951), (0xA980, 0xA982), (0xA9B3, 0xA9B3),
     (0xA9B6, 0xA9B9), (0xA9BC, 0xA9BD), (0xA9CF, 0xA9CF), (0xA9E5, 0xA9E6), (0xAA29, 0xAA2E), (0xAA31, 0xAA32),
     (0xAA35, 0xAA36), (0xAA43, 0xAA43), (0xAA4C, 0xAA4C), (0xAA70, 0xAA70), (0xAA7C, 0xAA7C), (0xAAB0, 0xAAB0),
     (0xAAB2, 0xAAB4), (0xAAB7, 0xAAB8), (0xAABE, 0xAABF), (0xAAC1, 0xAAC1), (0xAADD, 0xAADD), (0xAAEC, 0xAAED),
     (0xAAF3, 0xAAF4), (0xAAF6, 0xAAF6), (0xAB5B, 0xAB5F), (0xAB69, 0xAB6B), (0xABE5, 0xABE5), (0xABE8, 0xABE8),
     (0xABED, 0xABED), (0xFB1E, 0xFB1E), (0xFBB2, 0xFBC2), (0xFE00, 0xFE0F), (0xFE13, 0xFE13), (0xFE20, 0xFE2F),
     (0xFE52, 0xFE52), (0xFE55, 0xFE55), (0xFEFF, 0xFEFF), (0xFF07, 0xFF07), (0xFF0E, 0xFF0E), (0xFF1A, 0xFF1A),
     (0xFF3E, 0xFF3E), (0xFF40, 0xFF40), (0xFF70, 0xFF70), (0xFF9E, 0xFF9F), (0xFFE3, 0xFFE3), (0xFFF9, 0xFFFB),
     (0x101FD, 0x101FD), (0x102E0, 0x102E0), (0x10376, 0x1037A), (0x10780, 0x10785), (0x10787, 0x107B0), (0x107B2, 0x107BA),
     (0x10A01, 0x10A03), (0x10A05, 0x10A06), (0x10A0C, 0x10A0F), (0x10A38, 0x10A3A), (0x10A3F, 0x10A3F), (0x10AE5, 0x10AE6),
     (0x10D24, 0x10D27), (0x10EAB, 0x10EAC), (0x10F46, 0x10F50), (0x10F82, 0x10F85), (0x11001, 0x11001), (0x11038, 0x11046),
     (0x11070, 0x11070), (0x11073, 0x11074), (0x1107F, 0x11081), (0x110B3, 0x110B6), (0x110B9, 0x110BA), (0x110BD, 0x110BD),
     (0x110C2, 0x110C2), (0x110CD, 0x110CD), (0x11100, 0x11102), (0x11127, 0x1112B), (0x1112D, 0x11134), (0x11173, 0x11173),
     (0x11180, 0x11181), (0x111B6, 0x111BE), (0x111C9, 0x111CC), (0x111CF, 0x111CF), (0x1122F, 0x11231), (0x11234, 0x11234),
     (0x11236, 0x11237), (0x1123E, 0x1123E), (0x112DF, 0x112DF), (0x112E3, 0x112EA), (0x11300, 0x11301), (0x1133B, 0x1133C),
     (0x11340, 0x11340), (0x11366, 0x1136C), (0x11370, 0x11374), (0x11438, 0x1143F), (0x11442, 0x11444), (0x11446, 0x11446),
     (0x1145E, 0x1145E), (0x114B3, 0x114B8), (0x114BA, 0x114BA), (0x114BF, 0x114C0), (0x114C2, 0x114C3), (0x115B2, 0x115B5),
     (0x115BC, 0x115BD), (0x115BF, 0x115C0), (0x115DC, 0x115DD), (0x11633, 0x1163A), (0x1163D, 0x1163D), (0x1163F, 0x11640),
     (0x116AB, 0x116AB), (0x116AD, 0x116AD), (0x116B0, 0x116B5), (0x116B7, 0x116B7), (0x1171D, 0x1171F), (0x11722, 0x11725),
     (0x11727, 0x1172B), (0x1182F, 0x11837), (0x11839, 0x1183A), (0x1193B, 0x1193C), (0x1193E, 0x1193E), (0x11943, 0x11943),
     (0x119D4, 0x119D7), (0x119DA, 0x119DB), (0x119E0, 0x119E0), (0x11A01, 0x11A0A), (0x11A33, 0x11A38), (0x11A3B, 0x11A3E),
     (0x11A47, 0x11A47), (0x11A51, 0x11A56), (0x11A59, 0x11A5B), (0x11A8A, 0x11A96), (0x11A98, 0x11A99), (0x11C30, 0x11C36),
     (0x11C38, 0x11C3D), (0x11C3F, 0x11C3F), (0x11C92, 0x11CA7), (0x11CAA, 0x11CB0), (0x11CB2, 0x11CB3), (0x11CB5, 0x11CB6),
     (0x11D31, 0x11D36), (0x11D3A, 0x11D3A), (0x11D3C, 0x11D3D), (0x11D3F, 0x11D45), (0x11D47, 0x11D47), (0x11D90, 0x11D91),
     (0x11D95, 0x11D95), (0x11D97, 0x11D97), (0x11EF3, 0x11EF4), (0x13430, 0x13438), (0x16AF0, 0x16AF4), (0x16B30, 0x16B36),
     (0x16B40, 0x16B43), (0x16F4F, 0x16F4F), (0x16F8F, 0x16F9F), (0x16FE0, 0x16FE1), (0x16FE3, 0x16FE4), (0x1AFF0, 0x1AFF3),
     (0x1AFF5, 0x1AFFB), (0x1AFFD, 0x1AFFE), (0x1BC9D, 0x1BC9E), (0x1BCA0, 0x1BCA3), (0x1CF00, 0x1CF2D), (0x1CF30, 0x1CF46),
     (0x1D167, 0x1D169), (0x1D173, 0x1D182), (0x1D185, 0x1D18B), (0x1D1AA, 0x1D1AD), (0x1D242, 0x1D244), (0x1DA00, 0x1DA36),
     (0x1DA3B, 0x1DA6C), (0x1DA75, 0x1DA75), (0x1DA84, 0x1DA84), (0x1DA9B, 0x1DA9F), (0x1DAA1, 0x1DAAF), (0x1E000, 0x1E006),
     (0x1E008, 0x1E018), (0x1E01B, 0x1E021), (0x1E023, 0x1E024), (0x1E026, 0x1E02A), (0x1E130, 0x1E13D), (0x1E2AE, 0x1E2AE),
     (0x1E2EC, 0x1E2EF), (0x1E8D0, 0x1E8D6), (0x1E944, 0x1E94B), (0x1F3FB, 0x1F3FF), (0xE0001, 0xE0001), (0xE0020, 0xE007F),
     (0xE0100, 0xE01EF)]"

text \<open>The code points with the property \<open>Cased\<close>, as ranges.\<close>

definition cased_table :: "(nat \<times> nat) list" where
  "cased_table =
    [(0x41, 0x5A), (0x61, 0x7A), (0xAA, 0xAA), (0xB5, 0xB5), (0xBA, 0xBA), (0xC0, 0xD6),
     (0xD8, 0xF6), (0xF8, 0x1BA), (0x1BC, 0x1BF), (0x1C4, 0x293), (0x295, 0x2B8), (0x2C0, 0x2C1),
     (0x2E0, 0x2E4), (0x345, 0x345), (0x370, 0x373), (0x376, 0x377), (0x37A, 0x37D), (0x37F, 0x37F),
     (0x386, 0x386), (0x388, 0x38A), (0x38C, 0x38C), (0x38E, 0x3A1), (0x3A3, 0x3F5), (0x3F7, 0x481),
     (0x48A, 0x52F), (0x531, 0x556), (0x560, 0x588), (0x10A0, 0x10C5), (0x10C7, 0x10C7), (0x10CD, 0x10CD),
     (0x10D0, 0x10FA), (0x10FD, 0x10FF), (0x13A0, 0x13F5), (0x13F8, 0x13FD), (0x1C80, 0x1C88), (0x1C90, 0x1CBA),
     (0x1CBD, 0x1CBF), (0x1D00, 0x1DBF), (0x1E00, 0x1F15), (0x1F18, 0x1F1D), (0x1F20, 0x1F45), (0x1F48, 0x1F4D),
     (0x1F50, 0x1F57), (0x1F59, 0x1F59), (0x1F5B, 0x1F5B), (0x1F5D, 0x1F5D), (0x1F5F, 0x1F7D), (0x1F80, 0x1FB4),
     (0x1FB6, 0x1FBC), (0x1FBE, 0x1FBE), (0x1FC2, 0x1FC4), (0x1FC6, 0x1FCC), (0x1FD0, 0x1FD3), (0x1FD6, 0x1FDB),
     (0x1FE0, 0x1FEC), (0x1FF2, 0x1FF4), (0x1FF6, 0x1FFC), (0x2071, 0x2071), (0x207F, 0x207F), (0x2090, 0x209C),
     (0x2102, 0x2102), (0x2107, 0x2107), (0x210A, 0x2113), (0x2115, 0x2115), (0x2119, 0x211D), (0x2124, 0x2124),
     (0x2126, 0x2126), (0x2128, 0x2128), (0x212A, 0x212D), (0x212F, 0x2134), (0x2139, 0x2139), (0x213C, 0x213F),
     (0x2145, 0x2149), (0x214E, 0x214E), (0x2160, 0x217F), (0x2183, 0x2184), (0x24B6, 0x24E9), (0x2C00, 0x2CE4),
     (0x2CEB, 0x2CEE), (0x2CF2, 0x2CF3), (0x2D00, 0x2D25), (0x2D27, 0x2D27), (0x2D2D, 0x2D2D), (0xA640, 0xA66D),
     (0xA680, 0xA69D), (0xA722, 0xA787), (0xA78B, 0xA78E), (0xA790, 0xA7CA), (0xA7D0, 0xA7D1), (0xA7D3, 0xA7D3),
     (0xA7D5, 0xA7D9), (0xA7F5, 0xA7F6), (0xA7F8, 0xA7FA), (0xAB30, 0xAB5A), (0xAB5C, 0xAB68), (0xAB70, 0xABBF),
     (0xFB00, 0xFB06), (0xFB13, 0xFB17), (0xFF21, 0xFF3A), (0xFF41, 0xFF5A), (0x10400, 0x1044F), (0x104B0, 0x104D3),
     (0x104D8, 0x104FB), (0x10570, 0x1057A), (0x1057C, 0x1058A), (0x1058C, 0x10592), (0x10594, 0x10595), (0x10597, 0x105A1),
     (0x105A3, 0x105B1), (0x105B3, 0x105B9), (0x105BB, 0x105BC), (0x10780, 0x10780), (0x10783, 0x10785), (0x10787, 0x107B0),
     (0x107B2, 0x107BA), (0x10C80, 0x10CB2), (0x10CC0, 0x10CF2), (0x118A0, 0x118DF), (0x16E40, 0x16E7F), (0x1D400, 0x1D454),
     (0x1D456, 0x1D49C), (0x1D49E, 0x1D49F), (0x1D4A2, 0x1D4A2), (0x1D4A5, 0x1D4A6), (0x1D4A9, 0x1D4AC), (0x1D4AE, 0x1D4B9),
     (0x1D4BB, 0x1D4BB), (0x1D4BD, 0x1D4C3), (0x1D4C5, 0x1D505), (0x1D507, 0x1D50A), (0x1D50D, 0x1D514), (0x1D516, 0x1D51C),
     (0x1D51E, 0x1D539), (0x1D53B, 0x1D53E), (0x1D540, 0x1D544), (0x1D546, 0x1D546), (0x1D54A, 0x1D550), (0x1D552, 0x1D6A5),
     (0x1D6A8, 0x1D6C0), (0x1D6C2, 0x1D6DA), (0x1D6DC, 0x1D6FA), (0x1D6FC, 0x1D714), (0x1D716, 0x1D734), (0x1D736, 0x1D74E),
     (0x1D750, 0x1D76E), (0x1D770, 0x1D788), (0x1D78A, 0x1D7A8), (0x1D7AA, 0x1D7C2), (0x1D7C4, 0x1D7CB), (0x1DF00, 0x1DF09),
     (0x1DF0B, 0x1DF1E), (0x1E900, 0x1E943), (0x1F130, 0x1F149), (0x1F150, 0x1F169), (0x1F170, 0x1F189)]"

fun lookup_lower :: "(nat \<times> nat \<times> nat \<times> nat) list \<Rightarrow> nat \<Rightarrow> nat" where
  "lookup_lower [] c = c"
| "lookup_lower ((a, b, k, t) # r) c =
     (if a \<le> c \<and> c \<le> b \<and> (c - a) mod k = 0 then t + (c - a) else lookup_lower r c)"

definition in_table :: "(nat \<times> nat) list \<Rightarrow> nat \<Rightarrow> bool" where
  "in_table t c = list_ex (\<lambda>(a, b). a \<le> c \<and> c \<le> b) t"

definition is_case_ignorable :: "nat \<Rightarrow> bool" where
  "is_case_ignorable c = in_table case_ignorable_table c"

definition is_cased :: "nat \<Rightarrow> bool" where
  "is_cased c = in_table cased_table c"

text \<open>
  The full lower-case mapping of one code point: U+0130 becomes \<open>i\<close> and a combining dot.
\<close>

definition to_lower_full :: "nat \<Rightarrow> str" where
  "to_lower_full c =
     (if c < 128 then [ascii_lower c]
      else if c = 0x130 then [0x69, 0x307]
      else [lookup_lower lower_table c])"

text \<open>
  A capital sigma becomes the final sigma when a cased letter stands before it and none
  after it, case-ignorable code points skipped on both sides. \<open>pre\<close> is the text before
  the sigma, read backwards, and \<open>post\<close> the text after it.
\<close>

definition final_sigma :: "str \<Rightarrow> str \<Rightarrow> bool" where
  "final_sigma pre post =
     (let b = dropWhile is_case_ignorable pre; a = dropWhile is_case_ignorable post
      in b \<noteq> [] \<and> is_cased (hd b) \<and> (a = [] \<or> \<not> is_cased (hd a)))"

fun lower_from :: "str \<Rightarrow> str \<Rightarrow> str" where
  "lower_from pre [] = []"
| "lower_from pre (c # r) =
     (if c = 0x3A3 then [if final_sigma pre r then 0x3C2 else 0x3C3] else to_lower_full c)
     @ lower_from (c # pre) r"

text \<open>\<open>s.lower()\<close>\<close>

definition lower :: "str \<Rightarrow> str" where
  "lower s = lower_from [] s"

section \<open>The standard library: UTF-8, \<open>urllib.parse\<close>\<close>

text \<open>
  The functions of \<open>urllib.parse\<close> that \<open>canonicalize_url\<close> calls are modelled
  after CPython 3.11 (\<open>Lib/urllib/parse.py\<close>), on code points. Two checks of
  \<open>urlsplit\<close> need tables that are not modelled and are parameters: whether
  \<open>ipaddress.ip_address\<close> accepts a bracketed host as an IPv6 address, and whether a
  non-ASCII netloc passes the NFKC test of \<open>_checknetloc\<close>. The other members of
  \<open>lib\<close> are the library functions used further on: the SHA-1 hex digest of a string,
  \<open>dateutil.parser.parse\<close> followed by the source's ``naive means UTC'' (microseconds
  since the epoch; \<open>None\<close> when the parser raises), the \<open>datetime\<close> constructor
  on a time tuple, and \<open>datetime.isoformat\<close>.
\<close>

type_synonym instant = int

record lib =
  ipv6_ok :: "str \<Rightarrow> bool"
  nfkc_ok :: "str \<Rightarrow> bool"
  sha1 :: "str \<Rightarrow> str"
  dateparse :: "str \<Rightarrow> instant option"
  datetime6 :: "int list \<Rightarrow> instant option"
  isoformat :: "instant \<Rightarrow> str"

datatype error = ValueError | UnicodeEncodeError | OverflowError

subsection \<open>UTF-8\<close>

text \<open>\<open>s.encode("utf-8")\<close>, strict: a surrogate cannot be encoded.\<close>

definition utf8_encode_cp :: "nat \<Rightarrow> nat list option" where
  "utf8_encode_cp c =
     (if c < 0x80 then Some [c]
      else if c < 0x800 then Some [0xC0 + c div 64, 0x80 + c mod 64]
      else if c < 0x10000 then
        (if 0xD800 \<le> c \<and> c < 0xE000 then None
         else Some [0xE0 + c div 4096, 0x80 + (c div 64) mod 64, 0x80 + c mod 64])
      else if c < 0x110000 then
        Some [0xF0 + c div 262144, 0x80 + (c div 4096) mod 64, 0x80 + (c div 64) mod 64,
              0x80 + c mod 64]
      else None)"

fun utf8_encode :: "str \<Rightarrow> nat list option" where
  "utf8_encode [] = Some []"
| "utf8_encode (c # cs) =
     (case utf8_encode_cp c of None \<Rightarrow> None
      | Some bs \<Rightarrow> (case utf8_encode cs of None \<Rightarrow> None | Some r \<Rightarrow> Some (bs @ r)))"

definition cont :: "nat \<Rightarrow> bool" where
  "cont b \<longleftrightarrow> 0x80 \<le> b \<and> b < 0xC0"

text \<open>
  \<open>bs.decode("utf-8", "replace")\<close>: the decoder of CPython, which puts one U+FFFD for
  an invalid start byte, for the valid prefix of a sequence broken by a byte that cannot
  continue it, and for a sequence cut off by the end of the input.
\<close>

fun utf8_decode :: "nat list \<Rightarrow> str" where
  "utf8_decode [] = []"
| "utf8_decode (b # bs) =
     (if b < 0x80 then b # utf8_decode bs
      else if b < 0xC2 then 0xFFFD # utf8_decode bs
      else if b < 0xE0 then
        (case bs of [] \<Rightarrow> [0xFFFD]
         | b2 # r2 \<Rightarrow>
             if cont b2 then ((b - 0xC0) * 64 + (b2 - 0x80)) # utf8_decode r2
             else 0xFFFD # utf8_decode bs)
      else if b < 0xF0 then
        (case bs of [] \<Rightarrow> [0xFFFD]
         | b2 # r2 \<Rightarrow>
             if \<not> cont b2 \<or> (b = 0xE0 \<and> b2 < 0xA0) \<or> (b = 0xED \<and> 0xA0 \<le> b2)
             then 0xFFFD # utf8_decode bs
             else (case r2 of [] \<Rightarrow> [0xFFFD]
                   | b3 # r3 \<Rightarrow>
                       if cont b3
                       then ((b - 0xE0) * 4096 + (b2 - 0x80) * 64 + (b3 - 0x80)) # utf8_decode r3
                       else 0xFFFD # utf8_decode r2))
      else if b < 0xF5 then
        (case bs of [] \<Rightarrow> [0xFFFD]
         | b2 # r2 \<Rightarrow>
             if \<not> cont b2 \<or> (b = 0xF0 \<and> b2 < 0x90) \<or> (b = 0xF4 \<and> 0x90 \<le> b2)
             then 0xFFFD # utf8_decode bs
             else (case r2 of [] \<Rightarrow> [0xFFFD]
                   | b3 # r3 \<Rightarrow>
                       if \<not> cont b3 then 0xFFFD # utf8_decode r2
                       else (case r3 of [] \<Rightarrow> [0xFFFD]
                             | b4 # r4 \<Rightarrow>
                                 if cont b4
                                 then ((b - 0xF0) * 262144 + (b2 - 0x80) * 4096 +
                                       (b3 - 0x80) * 64 + (b4 - 0x80)) # utf8_decode r4
                                 else 0xFFFD # utf8_decode r3)))
      else 0xFFFD # utf8_decode bs)"

subsection \<open>Percent-encoding\<close>

definition is_hex :: "nat \<Rightarrow> bool" where
  "is_hex c \<longleftrightarrow> is_digit c \<or> (65 \<le> c \<and> c \<le> 70) \<or> (97 \<le> c \<and> c \<le> 102)"

definition hexval :: "nat \<Rightarrow> nat" where
  "hexval c = (if is_digit c then c - 48 else if c \<le> 70 then c - 55 else c - 87)"

text \<open>
  \<open>unquote_to_bytes\<close> on an ASCII string: \<open>%XX\<close> with two hexadecimal digits is the
  byte, any other \<open>%\<close> stays.
\<close>

fun unquote_to_bytes :: "nat list \<Rightarrow> nat list" where
  "unquote_to_bytes (p # a # b # r) =
     (if p = 37 \<and> is_hex a \<and> is_hex b then (hexval a * 16 + hexval b) # unquote_to_bytes r
      else p # unquote_to_bytes (a # b # r))"
| "unquote_to_bytes xs = xs"

text \<open>
  \<open>unquote\<close>: each maximal run of ASCII characters is unquoted to bytes and decoded as
  UTF-8 with replacement; the characters outside ASCII stay.
\<close>

function unquote_runs :: "str \<Rightarrow> str" where
  "unquote_runs [] = []"
| "unquote_runs (c # cs) =
     (if c < 128
      then utf8_decode (unquote_to_bytes (c # takeWhile (\<lambda>x. x < 128) cs)) @
           unquote_runs (dropWhile (\<lambda>x. x < 128) cs)
      else c # unquote_runs cs)"
  by pat_completeness auto
termination
  by (relation "measure length") (auto simp: less_Suc_eq_le length_dropWhile_le)

definition unquote :: "str \<Rightarrow> str" where
  "unquote s = (if 37 \<in> set s then unquote_runs s else s)"

text \<open>\<open>unquote_plus\<close>: \<open>string.replace("+", " ")\<close>, then \<open>unquote\<close>.\<close>

definition plus_to_space :: "nat \<Rightarrow> nat" where
  "plus_to_space c = (if c = 43 then 32 else c)"

definition unquote_plus :: "str \<Rightarrow> str" where
  "unquote_plus s = unquote (map plus_to_space s)"

definition always_safe :: "nat \<Rightarrow> bool" where
  "always_safe b \<longleftrightarrow> is_alpha b \<or> is_digit b \<or> b = 95 \<or> b = 46 \<or> b = 45 \<or> b = 126"

definition hexdigit :: "nat \<Rightarrow> nat" where
  "hexdigit n = (if n < 10 then 48 + n else 55 + n)"

text \<open>
  \<open>quote_plus(s)\<close> with no extra safe characters, byte by byte: a safe byte stays, a
  space becomes \<open>+\<close>, any other byte becomes \<open>%XX\<close> in upper case.
\<close>

definition quote_byte :: "nat \<Rightarrow> str" where
  "quote_byte b =
     (if always_safe b then [b] else if b = 32 then [43]
      else [37, hexdigit (b div 16), hexdigit (b mod 16)])"

definition quote_plus :: "str \<Rightarrow> error + str" where
  "quote_plus s =
     (case utf8_encode s of None \<Rightarrow> Inl UnicodeEncodeError
      | Some bs \<Rightarrow> Inr (concat (map quote_byte bs)))"

subsection \<open>Query strings\<close>

text \<open>\<open>s.split(sep)\<close> for a separator of one character.\<close>

function split_on :: "nat \<Rightarrow> str \<Rightarrow> str list" where
  "split_on sep s =
     (case dropWhile (\<lambda>c. c \<noteq> sep) s of
        [] \<Rightarrow> [s]
      | c # r \<Rightarrow> takeWhile (\<lambda>c. c \<noteq> sep) s # split_on sep r)"
  by pat_completeness auto
termination
proof (relation "measure (\<lambda>(sep, s). length s)")
  show "wf (measure (\<lambda>(sep, s). length s))"
    by simp
next
  fix sep :: nat and s :: str and c r
  assume "dropWhile (\<lambda>c. c \<noteq> sep) s = c # r"
  then have "length (c # r) \<le> length s"
    using length_dropWhile_le [of "\<lambda>c. c \<noteq> sep" s] by simp
  then show "((sep, r), (sep, s)) \<in> measure (\<lambda>(sep, s). length s)"
    by simp
qed

declare split_on.simps [simp del]

text \<open>\<open>sep.join(xs)\<close>\<close>

fun join :: "str \<Rightarrow> str list \<Rightarrow> str" where
  "join sep [] = []"
| "join sep [x] = x"
| "join sep (x # y # r) = x @ sep @ join sep (y # r)"

text \<open>
  \<open>parse_qsl(qs, keep_blank_values=True)\<close>: the fields between \<open>&\<close>, the empty ones
  skipped; a field is split at its first \<open>=\<close> (\<open>str.partition\<close>), and name and value
  are unquoted.
\<close>

definition parse_field :: "str \<Rightarrow> str \<times> str" where
  "parse_field nv =
     (unquote_plus (takeWhile (\<lambda>c. c \<noteq> 61) nv), unquote_plus (drop 1 (dropWhile (\<lambda>c. c \<noteq> 61) nv)))"

definition parse_qsl :: "str \<Rightarrow> (str \<times> str) list" where
  "parse_qsl qs = (if qs = [] then [] else map parse_field (filter (\<lambda>nv. nv \<noteq> []) (split_on 38 qs)))"

text \<open>
  \<open>urlencode(q, doseq=True)\<close> for a list of pairs of strings:
  \<open>quote_plus(k) + "=" + quote_plus(v)\<close>, joined by \<open>&\<close>.
\<close>

fun urlencode_fields :: "(str \<times> str) list \<Rightarrow> error + str list" where
  "urlencode_fields [] = Inr []"
| "urlencode_fields ((k, v) # q) =
     (case quote_plus k of Inl e \<Rightarrow> Inl e
      | Inr k' \<Rightarrow>
        (case quote_plus v of Inl e \<Rightarrow> Inl e
         | Inr v' \<Rightarrow>
           (case urlencode_fields q of Inl e \<Rightarrow> Inl e
            | Inr l \<Rightarrow> Inr ((k' @ [61] @ v') # l))))"

definition urlencode :: "(str \<times> str) list \<Rightarrow> error + str" where
  "urlencode q = (case urlencode_fields q of Inl e \<Rightarrow> Inl e | Inr l \<Rightarrow> Inr (join [38] l))"

subsection \<open>Splitting and joining a URL\<close>

record parts =
  scheme :: str
  netloc :: str
  path :: str
  query :: str
  fragment :: str

definition scheme_char :: "nat \<Rightarrow> bool" where
  "scheme_char c \<longleftrightarrow> is_alpha c \<or> is_digit c \<or> c = 43 \<or> c = 45 \<or> c = 46"

text \<open>
  The scheme of \<open>urlsplit\<close>: the text before the first colon, when it is not empty,
  starts with an ASCII letter and holds scheme characters only; it is lower-cased.
\<close>

definition find_scheme :: "str \<Rightarrow> (str \<times> str) option" where
  "find_scheme u =
     (let pre = takeWhile (\<lambda>c. c \<noteq> 58) u in
      if length pre < length u \<and> pre \<noteq> [] \<and> is_alpha (hd pre) \<and> list_all scheme_char pre
      then Some (map ascii_lower pre, drop (Suc (length pre)) u)
      else None)"

definition delim :: "nat \<Rightarrow> bool" where
  "delim c \<longleftrightarrow> c = 47 \<or> c = 63 \<or> c = 35"

text \<open>\<open>_splitnetloc(url, 2)\<close>\<close>

definition splitnetloc :: "str \<Rightarrow> str \<times> str" where
  "splitnetloc url =
     (takeWhile (\<lambda>c. \<not> delim c) (drop 2 url), dropWhile (\<lambda>c. \<not> delim c) (drop 2 url))"

text \<open>\<open>re.match(r"\Av[a-fA-F0-9]+\..+\Z", h)\<close> for a host that starts with \<open>v\<close>.\<close>

definition check_ipvfuture :: "str \<Rightarrow> bool" where
  "check_ipvfuture h =
     (let hx = takeWhile is_hex (tl h); r = dropWhile is_hex (tl h)
      in hx \<noteq> [] \<and> 2 \<le> length r \<and> hd r = 46 \<and> 10 \<notin> set (tl r))"

text \<open>\<open>_check_bracketed_host\<close>: \<open>True\<close> when it does not raise.\<close>

definition check_bracketed_host :: "lib \<Rightarrow> str \<Rightarrow> bool" where
  "check_bracketed_host L h =
     (if h \<noteq> [] \<and> hd h = 118 then check_ipvfuture h else ipv6_ok L h)"

text \<open>\<open>netloc.partition("[")[2].partition("]")[0]\<close>\<close>

definition bracketed_host :: "str \<Rightarrow> str" where
  "bracketed_host n = takeWhile (\<lambda>c. c \<noteq> 93) (drop 1 (dropWhile (\<lambda>c. c \<noteq> 91) n))"

text \<open>\<open>_checknetloc\<close>: \<open>True\<close> when it does not raise.\<close>

definition checknetloc :: "lib \<Rightarrow> str \<Rightarrow> bool" where
  "checknetloc L n \<longleftrightarrow> n = [] \<or> list_all (\<lambda>c. c < 128) n \<or> nfkc_ok L n"

text \<open>
  The two tests on the brackets of the netloc, made when the URL has \<open>//\<close>:
  \<open>True\<close> when neither raises.
\<close>

definition brackets_ok :: "lib \<Rightarrow> str \<Rightarrow> bool" where
  "brackets_ok L nl \<longleftrightarrow>
     (91 \<in> set nl) = (93 \<in> set nl) \<and>
     (91 \<in> set nl \<and> 93 \<in> set nl \<longrightarrow> check_bracketed_host L (bracketed_host nl))"

text \<open>\<open>url.lstrip(_WHATWG_C0_CONTROL_OR_SPACE)\<close>\<close>

definition lstrip_c0 :: "str \<Rightarrow> str" where
  "lstrip_c0 u = dropWhile (\<lambda>c. c \<le> 32) u"

text \<open>The removal of tab, carriage return and line feed.\<close>

definition remove_unsafe :: "str \<Rightarrow> str" where
  "remove_unsafe u = filter (\<lambda>c. c \<noteq> 9 \<and> c \<noteq> 13 \<and> c \<noteq> 10) u"

definition split_scheme :: "str \<Rightarrow> str \<times> str" where
  "split_scheme u = (case find_scheme u of Some sr \<Rightarrow> sr | None \<Rightarrow> ([], u))"

text \<open>\<open>if c in url: url, x = url.split(c, 1)\<close>, with \<open>x\<close> empty otherwise.\<close>

definition split_once :: "nat \<Rightarrow> str \<Rightarrow> str \<times> str" where
  "split_once c s =
     (if c \<in> set s then (takeWhile (\<lambda>x. x \<noteq> c) s, drop 1 (dropWhile (\<lambda>x. x \<noteq> c) s))
      else (s, []))"

definition urlsplit :: "lib \<Rightarrow> str \<Rightarrow> error + parts" where
  "urlsplit L url0 =
     (case split_scheme (remove_unsafe (lstrip_c0 url0)) of
        (sch, url1) \<Rightarrow>
          (case (if take 2 url1 = [47, 47] then splitnetloc url1 else ([], url1)) of
             (nl, url2) \<Rightarrow>
               if take 2 url1 = [47, 47] \<and> \<not> brackets_ok L nl then Inl ValueError
               else (case split_once 35 url2 of
                       (url3, frag) \<Rightarrow>
                         (case split_once 63 url3 of
                            (url4, qry) \<Rightarrow>
                              if \<not> checknetloc L nl then Inl ValueError
                              else Inr \<lparr>scheme = sch, netloc = nl, path = url4, query = qry,
                                        fragment = frag\<rparr>))))"

definition uses_netloc :: "str list" where
  "uses_netloc = map S [''ftp'', ''http'', ''gopher'', ''nntp'', ''telnet'', ''imap'', ''wais'',
     ''file'', ''mms'', ''https'', ''shttp'', ''snews'', ''prospero'', ''rtsp'', ''rtsps'',
     ''rtspu'', ''rsync'', ''svn'', ''svn+ssh'', ''sftp'', ''nfs'', ''git'', ''git+ssh'', ''ws'',
     ''wss'']"

definition urlunsplit :: "parts \<Rightarrow> str" where
  "urlunsplit p =
     (let url1 =
            (if netloc p \<noteq> [] \<or> (scheme p \<noteq> [] \<and> scheme p \<in> set uses_netloc) \<or>
                take 2 (path p) = [47, 47]
             then [47, 47] @ netloc p @
                  (if path p \<noteq> [] \<and> hd (path p) \<noteq> 47 then 47 # path p else path p)
             else path p);
          url2 = (if scheme p \<noteq> [] then scheme p @ [58] @ url1 else url1);
          url3 = (if query p \<noteq> [] then url2 @ [63] @ query p else url2)
      in if fragment p \<noteq> [] then url3 @ [35] @ fragment p else url3)"

section \<open>URL canonicalization\<close>

definition tracking_prefixes :: "str list" where
  "tracking_prefixes = map S [''utm_'', ''spm'', ''from'', ''share'', ''mkt_'', ''mc_'']"

text \<open>\<open>TRACKING_PARAMS_RE.match(k)\<close>\<close>

definition tracking :: "str \<Rightarrow> bool" where
  "tracking k \<longleftrightarrow> list_ex (\<lambda>p. ci_prefix p k) tracking_prefixes"

definition canonicalize_url :: "lib \<Rightarrow> str \<Rightarrow> str" where
  "canonicalize_url L url =
     (case urlsplit L url of
        Inl e \<Rightarrow> url
      | Inr p \<Rightarrow>
          (case urlencode (filter (\<lambda>(k, v). \<not> tracking k) (parse_qsl (query p))) of
             Inl e \<Rightarrow> url
           | Inr new_query \<Rightarrow> urlunsplit (p\<lparr>query := new_query\<rparr>)))"

section \<open>Items\<close>

record item =
  item_id :: str
  title :: str
  link :: str
  published :: "str option"
  source_id :: str
  source :: str
  region :: str
  lang :: str
  tags :: "str list"
  weight :: rat
  summary :: str

section \<open>Deduplication\<close>

definition dedupe_key :: "lib \<Rightarrow> item \<Rightarrow> str \<times> str" where
  "dedupe_key L it = (canonicalize_url L (link it), lower (strip (sub_ws (title it))))"

fun dedupe_loop :: "lib \<Rightarrow> (str \<times> str) set \<Rightarrow> item list \<Rightarrow> item list \<Rightarrow> item list" where
  "dedupe_loop L seen out [] = out"
| "dedupe_loop L seen out (it # items) =
     (let key = dedupe_key L it
      in if key \<in> seen then dedupe_loop L seen out items
         else dedupe_loop L (insert key seen) (out @ [it]) items)"

definition dedupe :: "lib \<Rightarrow> item list \<Rightarrow> item list" where
  "dedupe L items = dedupe_loop L {} [] items"

section \<open>Age filter\<close>

text \<open>
  An aware \<open>datetime\<close> is its instant: microseconds since the epoch, between
  \<open>datetime.min\<close> and \<open>datetime.max\<close>. \<open>timedelta(days=d)\<close> raises beyond
  999999999 days, and a subtraction that leaves the range raises as well.
\<close>

definition datetime_min :: instant where
  "datetime_min = - 62135596800000000"

definition datetime_max :: instant where
  "datetime_max = 253402300799999999"

definition timedelta_days :: "int \<Rightarrow> error + int" where
  "timedelta_days d = (if \<bar>d\<bar> \<le> 999999999 then Inr (d * 86400000000) else Inl OverflowError)"

definition datetime_sub :: "instant \<Rightarrow> int \<Rightarrow> error + instant" where
  "datetime_sub t d =
     (if datetime_min \<le> t - d \<and> t - d \<le> datetime_max then Inr (t - d) else Inl OverflowError)"

fun filter_loop :: "lib \<Rightarrow> instant \<Rightarrow> item list \<Rightarrow> item list \<Rightarrow> item list" where
  "filter_loop L cutoff out [] = out"
| "filter_loop L cutoff out (it # items) =
     (case published it of
        None \<Rightarrow> filter_loop L cutoff (out @ [it]) items
      | Some p \<Rightarrow>
          if p = [] then filter_loop L cutoff (out @ [it]) items
          else (case dateparse L p of
                  None \<Rightarrow> filter_loop L cutoff (out @ [it]) items
                | Some dt \<Rightarrow>
                    if cutoff \<le> dt then filter_loop L cutoff (out @ [it]) items
                    else filter_loop L cutoff out items))"

text \<open>\<open>now\<close> is the value of \<open>now_utc()\<close>.\<close>

definition filter_by_age :: "lib \<Rightarrow> instant \<Rightarrow> item list \<Rightarrow> int \<Rightarrow> error + item list" where
  "filter_by_age L now items max_age_days =
     (case timedelta_days max_age_days of
        Inl e \<Rightarrow> Inl e
      | Inr d \<Rightarrow>
          (case datetime_sub now d of
             Inl e \<Rightarrow> Inl e
           | Inr cutoff \<Rightarrow> Inr (filter_loop L cutoff [] items)))"

text \<open>
  The three reasons to keep an item, in the words of the specification: no published
  value (\<open>None\<close> or the empty string), a recorded value the parser rejects, a parsed
  time not before the cutoff.
\<close>

definition absent :: "item \<Rightarrow> bool" where
  "absent it \<longleftrightarrow> published it = None \<or> published it = Some []"

definition unparseable :: "lib \<Rightarrow> item \<Rightarrow> bool" where
  "unparseable L it \<longleftrightarrow> (case published it of None \<Rightarrow> False | Some p \<Rightarrow> p \<noteq> [] \<and> dateparse L p = None)"

definition not_before :: "lib \<Rightarrow> instant \<Rightarrow> item \<Rightarrow> bool" where
  "not_before L cutoff it \<longleftrightarrow>
     (case published it of None \<Rightarrow> False
      | Some p \<Rightarrow> (case dateparse L p of None \<Rightarrow> False | Some dt \<Rightarrow> cutoff \<le> dt))"

definition days :: "int \<Rightarrow> int" where
  "days d = d * 86400000000"

definition cutoff_ok :: "instant \<Rightarrow> int \<Rightarrow> bool" where
  "cutoff_ok now d \<longleftrightarrow> \<bar>d\<bar> \<le> 999999999 \<and> datetime_min \<le> now - days d \<and> now - days d \<le> datetime_max"

section \<open>HTML stripping\<close>

text \<open>
  The text after the first occurrence of a pattern, compared case-insensitively;
  \<open>None\<close> when the pattern does not occur.
\<close>

fun find_after :: "str \<Rightarrow> str \<Rightarrow> str option" where
  "find_after pat [] = (if pat = [] then Some [] else None)"
| "find_after pat (c # cs) =
     (if ci_prefix pat (c # cs) then Some (drop (length pat) (c # cs)) else find_after pat cs)"

lemma find_after_length: "find_after pat s = Some r \<Longrightarrow> length r \<le> length s"
  by (induction s) (auto split: if_splits)

text \<open>
  \<open>re.sub(r"<script.*?>.*?</script>", "", text, flags=re.S | re.I)\<close>, with the
  opening \<open><script\<close> and the closing \<open></script>\<close> as parameters: a match starts
  at an opening, runs lazily to the first \<open>>\<close> after it and then lazily to the
  first closing after that; without such a closing the opening is no match and stays.
\<close>

function remove_blocks :: "str \<Rightarrow> str \<Rightarrow> str \<Rightarrow> str" where
  "remove_blocks opn cls [] = []"
| "remove_blocks opn cls (c # cs) =
     (if ci_prefix opn (c # cs)
      then (case dropWhile (\<lambda>x. x \<noteq> 62) (drop (length opn) (c # cs)) of
              [] \<Rightarrow> c # remove_blocks opn cls cs
            | g # r \<Rightarrow>
                (case find_after cls r of
                   None \<Rightarrow> c # remove_blocks opn cls cs
                 | Some rest \<Rightarrow> remove_blocks opn cls rest))
      else c # remove_blocks opn cls cs)"
  by pat_completeness auto
termination
proof (relation "measure (\<lambda>(opn, cls, s). length s)")
  show "wf (measure (\<lambda>(opn, cls, s). length s))"
    by simp
next
  fix opn cls :: str and c :: nat and cs g r rest
  assume d: "dropWhile (\<lambda>x. x \<noteq> 62) (drop (length opn) (c # cs)) = g # r"
    and f: "find_after cls r = Some rest"
  have "length (g # r) \<le> length (drop (length opn) (c # cs))"
    using length_dropWhile_le [of "\<lambda>x. x \<noteq> 62" "drop (length opn) (c # cs)"] d by simp
  then have "length r < length (c # cs)"
    by simp
  with find_after_length [OF f] show "((opn, cls, rest), (opn, cls, c # cs)) \<in> measure (\<lambda>(opn, cls, s). length s)"
    by simp
qed simp_all

text \<open>
  \<open>re.sub(r"<[^>]+>", " ", text)\<close>: a \<open><\<close> that is followed by a character
  other than \<open>>\<close> and later by a \<open>>\<close> is replaced, up to that \<open>>\<close>, by a
  space.
\<close>

function strip_tags :: "str \<Rightarrow> str" where
  "strip_tags [] = []"
| "strip_tags (c # cs) =
     (if c = 60 \<and> cs \<noteq> [] \<and> hd cs \<noteq> 62 \<and> 62 \<in> set cs
      then 32 # strip_tags (drop 1 (dropWhile (\<lambda>x. x \<noteq> 62) cs))
      else c # strip_tags cs)"
  by pat_completeness auto
termination
proof (relation "measure length")
  fix c :: nat and cs :: str
  have "length (dropWhile (\<lambda>x. x \<noteq> 62) cs) \<le> length cs"
    by (rule length_dropWhile_le)
  then show "(drop 1 (dropWhile (\<lambda>x. x \<noteq> 62) cs), c # cs) \<in> measure length"
    by simp
qed simp_all

definition clean_html :: "str \<Rightarrow> str" where
  "clean_html text =
     (if text = [] then []
      else strip (sub_ws (strip_tags
             (remove_blocks (S ''<style'') (S ''</style>'')
                (remove_blocks (S ''<script'') (S ''</script>'') text)))))"

section \<open>Topic clustering\<close>

text \<open>
  Python floats are exact rationals in this model: the similarity and the score are
  computed without rounding. For the comparison with \<open>0.55\<close> this changes nothing as
  long as the union of two token sets has fewer than \<open>10^14\<close> elements, since a
  quotient of such natural numbers that is not \<open>11/20\<close> is further from it than the
  rounding error of a double.
\<close>

definition word_char :: "nat \<Rightarrow> bool" where
  "word_char c \<longleftrightarrow> is_alpha c \<or> is_digit c \<or> (0x4E00 \<le> c \<and> c \<le> 0x9FFF)"

text \<open>\<open>WORD_RE.findall(t)\<close>: the maximal runs of word characters.\<close>

function findall_words :: "str \<Rightarrow> str list" where
  "findall_words [] = []"
| "findall_words (c # cs) =
     (if word_char c then (c # takeWhile word_char cs) # findall_words (dropWhile word_char cs)
      else findall_words cs)"
  by pat_completeness auto
termination
  by (relation "measure length") (auto simp: less_Suc_eq_le length_dropWhile_le)

definition tokenize :: "str \<Rightarrow> str list" where
  "tokenize t = filter (\<lambda>x. 2 \<le> length x) (findall_words (lower t))"

definition jaccard :: "str list \<Rightarrow> str list \<Rightarrow> rat" where
  "jaccard a b =
     (let sa = set a; sb = set b
      in if sa = {} \<or> sb = {} then 0
         else (let inter = card (sa \<inter> sb); union = card (sa \<union> sb)
               in if union \<noteq> 0 then of_nat inter / of_nat union else 0))"

record cluster =
  c_id :: str
  c_headline :: str
  c_tokens :: "str list"
  c_items :: "str list"
  c_sources :: "str set"
  c_max_weight :: rat

text \<open>The body of \<open>if jaccard(toks, c["tokens"]) >= 0.55\<close>: the item joins cluster \<open>c\<close>.\<close>

definition join_cluster :: "item \<Rightarrow> str list \<Rightarrow> cluster \<Rightarrow> cluster" where
  "join_cluster it toks c =
     (let c1 = c\<lparr>c_items := c_items c @ [item_id it],
                 c_sources := insert (source it) (c_sources c),
                 c_max_weight := max (c_max_weight c) (weight it)\<rparr>
      in if length (c_headline c1) < length (title it)
         then c1\<lparr>c_headline := title it, c_tokens := toks\<rparr>
         else c1)"

text \<open>
  The inner loop over the clusters, which stops at the first one that is similar enough;
  \<open>None\<close> when the loop ends with \<open>assigned\<close> still false.
\<close>

fun assign :: "item \<Rightarrow> str list \<Rightarrow> cluster list \<Rightarrow> cluster list option" where
  "assign it toks [] = None"
| "assign it toks (c # cs) =
     (if 55 / 100 \<le> jaccard toks (c_tokens c) then Some (join_cluster it toks c # cs)
      else map_option (Cons c) (assign it toks cs))"

definition new_cluster :: "lib \<Rightarrow> item \<Rightarrow> str list \<Rightarrow> cluster" where
  "new_cluster L it toks =
     \<lparr>c_id = take 12 (sha1 L (S ''topic|'' @ title it)), c_headline = title it, c_tokens = toks,
      c_items = [item_id it], c_sources = {source it}, c_max_weight = weight it\<rparr>"

text \<open>One round of the outer loop.\<close>

definition place :: "lib \<Rightarrow> cluster list \<Rightarrow> item \<Rightarrow> cluster list" where
  "place L clusters it =
     (let toks = tokenize (title it)
      in case assign it toks clusters of
           Some clusters' \<Rightarrow> clusters'
         | None \<Rightarrow> clusters @ [new_cluster L it toks])"

fun cluster_items :: "lib \<Rightarrow> cluster list \<Rightarrow> item list \<Rightarrow> cluster list" where
  "cluster_items L clusters [] = clusters"
| "cluster_items L clusters (it # items) = cluster_items L (place L clusters it) items"

subsection \<open>Scoring\<close>

text \<open>\<open>{it["id"]: it for it in items}\<close>: of two items with one id the later one stays.\<close>

definition id_to_item :: "item list \<Rightarrow> str \<Rightarrow> item option" where
  "id_to_item items = map_of (rev (map (\<lambda>it. (item_id it, it)) items))"

text \<open>The loop of \<open>cluster_score\<close> that finds the newest parseable timestamp.\<close>

fun newest_loop :: "lib \<Rightarrow> (str \<Rightarrow> item option) \<Rightarrow> instant option \<Rightarrow> str list \<Rightarrow> instant option"
  where
  "newest_loop L m newest [] = newest"
| "newest_loop L m newest (iid # iids) =
     (case (case m iid of None \<Rightarrow> None | Some it \<Rightarrow> published it) of
        None \<Rightarrow> newest_loop L m newest iids
      | Some p \<Rightarrow>
          if p = [] then newest_loop L m newest iids
          else (case dateparse L p of
                  None \<Rightarrow> newest_loop L m newest iids
                | Some dt \<Rightarrow>
                    newest_loop L m
                      (Some (case newest of None \<Rightarrow> dt | Some n \<Rightarrow> max n dt)) iids))"

text \<open>\<open>max(0.0, (now - newest).total_seconds() / 3600.0)\<close>\<close>

definition age_hours :: "instant \<Rightarrow> instant \<Rightarrow> rat" where
  "age_hours now newest = max 0 (of_int (now - newest) / 1000000 / 3600)"

definition recency :: "instant \<Rightarrow> instant option \<Rightarrow> rat" where
  "recency now newest =
     (case newest of Some n \<Rightarrow> 1 / (1 + age_hours now n / 12) | None \<Rightarrow> 6 / 10)"

definition cluster_score :: "lib \<Rightarrow> instant \<Rightarrow> (str \<Rightarrow> item option) \<Rightarrow> cluster \<Rightarrow> rat" where
  "cluster_score L now m c =
     (let count = length (c_items c);
          diversity = card (c_sources c);
          newest = newest_loop L m None (c_items c)
      in (of_nat count * (1 + 25 / 100 * (of_nat diversity - 1))) * recency now newest *
         (9 / 10 + 1 / 10 * c_max_weight c))"

subsection \<open>The topics\<close>

record topic =
  t_id :: str
  t_headline :: str
  t_count :: nat
  t_sources :: "str list"
  t_items :: "str list"
  t_score :: rat

text \<open>\<open>xs[:k]\<close> for an integer \<open>k\<close>, which may be negative.\<close>

definition py_take :: "int \<Rightarrow> 'a list \<Rightarrow> 'a list" where
  "py_take k xs = (if 0 \<le> k then take (nat k) xs else take (length xs - nat (- k)) xs)"

text \<open>\<open>round(x, 4)\<close> on an exact value: to the nearest multiple of \<open>1/10000\<close>, ties to even.\<close>

definition round4 :: "rat \<Rightarrow> rat" where
  "round4 x =
     (let n = \<lfloor>x * 10000\<rfloor>; f = x * 10000 - of_int n
      in of_int (if f < 1 / 2 then n else if 1 / 2 < f then n + 1 else if even n then n else n + 1)
         / 10000)"

definition emit :: "rat \<Rightarrow> cluster \<Rightarrow> topic" where
  "emit score c =
     \<lparr>t_id = c_id c, t_headline = c_headline c, t_count = length (c_items c),
      t_sources = take 10 (sorted_list_of_set (c_sources c)), t_items = take 10 (c_items c),
      t_score = round4 score\<rparr>"

text \<open>
  \<open>clusters.sort(key=score, reverse=True)\<close> is stable: clusters of equal score keep
  their order, as a stable ascending sort on the negated score does.
\<close>

definition build_topics :: "lib \<Rightarrow> instant \<Rightarrow> item list \<Rightarrow> int \<Rightarrow> topic list" where
  "build_topics L now items top_k =
     (let clusters = cluster_items L [] items;
          m = id_to_item items;
          scored = map (\<lambda>c. (cluster_score L now m c, c)) clusters;
          ranked = sort_key (\<lambda>(s, c). - s) scored
      in map (\<lambda>(s, c). emit s c) (py_take top_k ranked))"

section \<open>Feeds and the outside world\<close>

record feed_def =
  feed_id :: str
  feed_name :: str
  feed_url :: str
  feed_type :: str
  feed_region :: str
  feed_lang :: str
  feed_tags :: "str list"
  feed_weight :: rat

text \<open>
  An entry of a parsed feed, as the normalized view of the fields the adapter looks up:
  each field is the value of the attribute, or \<open>None\<close> when the entry has none.
\<close>

record entry =
  e_link :: "str option"
  e_title :: "str option"
  e_published :: "str option"
  e_updated :: "str option"
  e_created :: "str option"
  e_pubDate :: "str option"
  e_published_parsed :: "int list option"
  e_updated_parsed :: "int list option"
  e_summary :: "str option"
  e_description :: "str option"
  e_subtitle :: "str option"

text \<open>
  The nodes of the two sitemap documents, each with the \<open>text\<close> of the child elements
  the adapter reads (\<open>None\<close> when the element is missing or has no text).
\<close>

record sitemap_node =
  sm_loc :: "str option"
  sm_lastmod :: "str option"

record url_node =
  u_loc :: "str option"
  u_title :: "str option"
  u_publication_date :: "str option"

text \<open>
  What \<open>feedparser.parse\<close> returns: the entries, of which alone the adapter reads, the
  HTTP status, and the flag \<open>bozo\<close>. The library does not raise when the server answers
  with an error status or cannot be reached: it returns a result with that status, or
  with \<open>bozo\<close> set, and whatever entries it found, mostly none.
\<close>

record parsed =
  p_bozo :: bool
  p_status :: "nat option"
  p_entries :: "entry list"

text \<open>
  What a run reads from outside: the result of \<open>feedparser.parse\<close> for a URL,
  the \<open>sm:sitemap\<close> nodes of the index document and the \<open>sm:url\<close> nodes of a child
  document at a URL (\<open>fetch_text\<close> followed by \<open>ET.fromstring\<close> and \<open>findall\<close>),
  each either a value or the message of the exception raised; and the order in which
  this process iterates over \<open>set(xs)\<close>, which for strings depends on the hash seed of
  the process.
\<close>

record world =
  feedparser_parse :: "str \<Rightarrow> str + parsed"
  fetch_sitemap_index :: "str \<Rightarrow> str + sitemap_node list"
  fetch_urlset :: "str \<Rightarrow> str + url_node list"
  set_order :: "str list \<Rightarrow> str list"

section \<open>The generic feed adapter\<close>

text \<open>The first loop of \<open>parse_date\<close>, over the values of the textual date fields.\<close>

fun parse_date_text :: "lib \<Rightarrow> str option list \<Rightarrow> instant option" where
  "parse_date_text L [] = None"
| "parse_date_text L (v # vs) =
     (case v of
        None \<Rightarrow> parse_date_text L vs
      | Some val \<Rightarrow>
          if val = [] then parse_date_text L vs
          else (case dateparse L val of
                  None \<Rightarrow> parse_date_text L vs
                | Some dt \<Rightarrow> Some dt))"

text \<open>The second loop, over the structured time tuples.\<close>

fun parse_date_tuple :: "lib \<Rightarrow> int list option list \<Rightarrow> instant option" where
  "parse_date_tuple L [] = None"
| "parse_date_tuple L (v # vs) =
     (case v of
        None \<Rightarrow> parse_date_tuple L vs
      | Some tp \<Rightarrow>
          if tp = [] then parse_date_tuple L vs
          else (case datetime6 L (take 6 tp) of
                  None \<Rightarrow> parse_date_tuple L vs
                | Some dt \<Rightarrow> Some dt))"

definition parse_date :: "lib \<Rightarrow> entry \<Rightarrow> instant option" where
  "parse_date L e =
     (case parse_date_text L [e_published e, e_updated e, e_created e, e_pubDate e] of
        Some dt \<Rightarrow> Some dt
      | None \<Rightarrow> parse_date_tuple L [e_published_parsed e, e_updated_parsed e])"

text \<open>\<open>x or ""\<close> for an optional string.\<close>

definition or_empty :: "str option \<Rightarrow> str" where
  "or_empty v = (case v of None \<Rightarrow> [] | Some s \<Rightarrow> s)"

text \<open>The loop over \<open>("summary", "description", "subtitle")\<close>: the first value that is not empty.\<close>

fun first_summary :: "str option list \<Rightarrow> str" where
  "first_summary [] = []"
| "first_summary (v # vs) = (if or_empty v \<noteq> [] then or_empty v else first_summary vs)"

text \<open>The body of the loop of \<open>parse_rss\<close>: \<open>None\<close> for an entry that is skipped.\<close>

definition rss_item :: "lib \<Rightarrow> feed_def \<Rightarrow> entry \<Rightarrow> item option" where
  "rss_item L feed e =
     (let lnk = canonicalize_url L (or_empty (e_link e))
      in if lnk = [] then None
         else Some
           \<lparr>item_id = sha1 L (feed_id feed @ S ''|'' @ lnk),
            title = clean_html (or_empty (e_title e)),
            link = lnk,
            published = map_option (isoformat L) (parse_date L e),
            source_id = feed_id feed,
            source = feed_name feed,
            region = feed_region feed,
            lang = feed_lang feed,
            tags = feed_tags feed,
            weight = feed_weight feed,
            summary = take 600 (clean_html (first_summary [e_summary e, e_description e, e_subtitle e]))\<rparr>)"

definition parse_rss :: "lib \<Rightarrow> world \<Rightarrow> feed_def \<Rightarrow> int \<Rightarrow> str + item list" where
  "parse_rss L W feed max_items =
     (case feedparser_parse W (feed_url feed) of
        Inl msg \<Rightarrow> Inl msg
      | Inr res \<Rightarrow> Inr (List.map_filter (rss_item L feed) (py_take max_items (p_entries res))))"

section \<open>The sitemap-index adapter\<close>

text \<open>\<open>_et_find_text\<close> on the text of the element found.\<close>

definition et_find_text :: "str option \<Rightarrow> str option" where
  "et_find_text t = (case t of None \<Rightarrow> None | Some s \<Rightarrow> if s = [] then None else Some (strip s))"

text \<open>
  The loop over the \<open>sm:sitemap\<close> nodes: a node without a location is skipped, the
  last-modified time is parsed when there is one.
\<close>

definition sitemap_entry :: "lib \<Rightarrow> sitemap_node \<Rightarrow> (str \<times> instant option) option" where
  "sitemap_entry L n =
     (case et_find_text (sm_loc n) of
        None \<Rightarrow> None
      | Some loc \<Rightarrow>
          if loc = [] then None
          else Some (loc, (case et_find_text (sm_lastmod n) of
                             None \<Rightarrow> None
                           | Some lastmod \<Rightarrow> if lastmod = [] then None else dateparse L lastmod)))"

text \<open>
  \<open>sitemaps.sort(key=lambda x: x[1] or epoch, reverse=True)\<close>, a stable sort, and the
  first six locations.
\<close>

definition recent_sitemaps :: "(str \<times> instant option) list \<Rightarrow> str list" where
  "recent_sitemaps sitemaps =
     map fst (take 6 (sort_key (\<lambda>(loc, lm). - (case lm of None \<Rightarrow> 0 | Some t \<Rightarrow> t)) sitemaps))"

definition reuters_item :: "lib \<Rightarrow> world \<Rightarrow> feed_def \<Rightarrow> str \<Rightarrow> str \<Rightarrow> str option \<Rightarrow> item" where
  "reuters_item L W feed lnk ttl pub =
     \<lparr>item_id = sha1 L (feed_id feed @ S ''|'' @ lnk),
      title = strip ttl,
      link = canonicalize_url L (strip lnk),
      published =
        map_option (isoformat L)
          (case pub of None \<Rightarrow> None | Some p \<Rightarrow> if p = [] then None else dateparse L p),
      source_id = feed_id feed,
      source = feed_name feed,
      region = feed_region feed,
      lang = feed_lang feed,
      tags = set_order W (feed_tags feed @ [S ''Reuters'']),
      weight = feed_weight feed,
      summary = []\<rparr>"

text \<open>
  The inner loop over the \<open>sm:url\<close> nodes of one child sitemap. It stops as soon as
  \<open>out\<close> holds \<open>max_items\<close> items; the test comes after an item is appended.
\<close>

fun url_loop :: "lib \<Rightarrow> world \<Rightarrow> feed_def \<Rightarrow> int \<Rightarrow> item list \<Rightarrow> url_node list \<Rightarrow> item list" where
  "url_loop L W feed max_items out [] = out"
| "url_loop L W feed max_items out (n # ns) =
     (case (et_find_text (u_loc n), et_find_text (u_title n)) of
        (Some lnk, Some ttl) \<Rightarrow>
          if lnk = [] \<or> ttl = [] then url_loop L W feed max_items out ns
          else (let out' = out @ [reuters_item L W feed lnk ttl (et_find_text (u_publication_date n))]
                in if max_items \<le> int (length out') then out'
                   else url_loop L W feed max_items out' ns)
      | _ \<Rightarrow> url_loop L W feed max_items out ns)"

text \<open>
  The outer loop over the child sitemaps. A child that cannot be fetched or parsed is
  skipped; after a child the loop stops when \<open>out\<close> holds \<open>max_items\<close> items.
\<close>

fun child_loop :: "lib \<Rightarrow> world \<Rightarrow> feed_def \<Rightarrow> int \<Rightarrow> item list \<Rightarrow> str list \<Rightarrow> item list" where
  "child_loop L W feed max_items out [] = out"
| "child_loop L W feed max_items out (loc # locs) =
     (case fetch_urlset W loc of
        Inl msg \<Rightarrow> child_loop L W feed max_items out locs
      | Inr nodes \<Rightarrow>
          (let out' = url_loop L W feed max_items out nodes
           in if max_items \<le> int (length out') then out'
              else child_loop L W feed max_items out' locs))"

definition parse_reuters_news_sitemap_index ::
  "lib \<Rightarrow> world \<Rightarrow> feed_def \<Rightarrow> int \<Rightarrow> str + item list" where
  "parse_reuters_news_sitemap_index L W feed max_items =
     (case fetch_sitemap_index W (feed_url feed) of
        Inl msg \<Rightarrow> Inl msg
      | Inr nodes \<Rightarrow>
          Inr (child_loop L W feed max_items []
                 (recent_sitemaps (List.map_filter (sitemap_entry L) nodes))))"

section \<open>The pipeline\<close>

record failure =
  f_feed :: str
  f_url :: str
  f_error :: str

text \<open>The adapter call inside the \<open>try\<close> of \<open>main\<close>.\<close>

definition fetch_feed :: "lib \<Rightarrow> world \<Rightarrow> int \<Rightarrow> feed_def \<Rightarrow> str + item list" where
  "fetch_feed L W max_items f =
     (if feed_type f = S ''rss'' then parse_rss L W f max_items
      else if feed_type f = S ''reuters_news_sitemap_index''
      then parse_reuters_news_sitemap_index L W f max_items
      else Inr [])"

text \<open>The loop over the feeds, with the pool of items and the failures so far.\<close>

fun feeds_loop ::
  "lib \<Rightarrow> world \<Rightarrow> int \<Rightarrow> item list \<Rightarrow> failure list \<Rightarrow> feed_def list \<Rightarrow> item list \<times> failure list"
  where
  "feeds_loop L W max_items all_items failures [] = (all_items, failures)"
| "feeds_loop L W max_items all_items failures (f # feeds) =
     (case fetch_feed L W max_items f of
        Inr items \<Rightarrow> feeds_loop L W max_items (all_items @ items) failures feeds
      | Inl msg \<Rightarrow>
          feeds_loop L W max_items all_items
            (failures @ [\<lparr>f_feed = feed_id f, f_url = feed_url f, f_error = msg\<rparr>]) feeds)"

text \<open>
  \<open>sort_key\<close> of \<open>main\<close>: the parsed published time, the epoch when there is none or
  it cannot be parsed, and the weight. The sort is descending and stable, as an ascending
  stable sort on the negated pair is.
\<close>

definition item_sort_key :: "lib \<Rightarrow> item \<Rightarrow> instant \<times> rat" where
  "item_sort_key L it =
     ((case published it of
         None \<Rightarrow> 0
       | Some p \<Rightarrow> if p = [] then 0 else (case dateparse L p of None \<Rightarrow> 0 | Some dt \<Rightarrow> dt)),
      weight it)"

definition sort_items :: "lib \<Rightarrow> item list \<Rightarrow> item list" where
  "sort_items L items = sort_key (\<lambda>it. (- fst (item_sort_key L it), - snd (item_sort_key L it))) items"

text \<open>
  \<open>main\<close>, from the loaded feeds and defaults to the three values it hands to the
  serializer; \<open>now\<close> is the clock. The only exception that leaves \<open>main\<close> is the
  one \<open>filter_by_age\<close> raises.
\<close>

definition main ::
  "lib \<Rightarrow> world \<Rightarrow> instant \<Rightarrow> feed_def list \<Rightarrow> int \<Rightarrow> int \<Rightarrow> error + item list \<times> topic list \<times> failure list"
  where
  "main L W now feeds max_age_days max_items_per_feed =
     (let (all_items, failures) = feeds_loop L W max_items_per_feed [] [] feeds
      in case filter_by_age L now all_items max_age_days of
           Inl e \<Rightarrow> Inl e
         | Inr kept \<Rightarrow>
             (let all_items = sort_items L (dedupe L kept)
              in Inr (all_items, build_topics L now all_items 10, failures)))"

section \<open>Example data\<close>

text \<open>
  An instance of the library parameters and a few items, for closed instances of the
  theorems. The date parser of the instance knows three timestamps; the clock \<open>now0\<close>
  is 2024-01-10T00:00:00Z.
\<close>

definition example_dates :: "(str \<times> instant) list" where
  "example_dates =
     [(S ''2024-01-02T00:00:00+00:00'', 1704153600000000),
      (S ''2024-01-04T00:00:00+00:00'', 1704326400000000),
      (S ''2024-01-10T00:00:00+00:00'', 1704844800000000)]"

definition lib0 :: lib where
  "lib0 = \<lparr>ipv6_ok = (\<lambda>h. False), nfkc_ok = (\<lambda>n. True), sha1 = (\<lambda>s. s),
            dateparse = map_of example_dates, datetime6 = (\<lambda>t. None), isoformat = (\<lambda>t. [])\<rparr>"

definition now0 :: instant where
  "now0 = 1704844800000000"

definition mk_item :: "string \<Rightarrow> string \<Rightarrow> string \<Rightarrow> string option \<Rightarrow> string \<Rightarrow> item" where
  "mk_item i t l p s =
     \<lparr>item_id = S i, title = S t, link = S l, published = map_option S p, source_id = S s,
      source = S s, region = S ''Global'', lang = S ''en'', tags = [], weight = 1, summary = []\<rparr>"

definition item_a :: item where
  "item_a = mk_item ''a1'' ''Fed raises  rates'' ''https://ex.com/fed?utm_source=rss''
     (Some ''2024-01-04T00:00:00+00:00'') ''A''"

definition item_b :: item where
  "item_b = mk_item ''b1'' ''fed raises rates '' ''https://ex.com/fed'' None ''B''"

definition item_c :: item where
  "item_c = mk_item ''c1'' ''Local team wins'' ''https://ex.com/team''
     (Some ''2024-01-02T00:00:00+00:00'') ''C''"

definition item_d :: item where
  "item_d = mk_item ''d1'' ''Rates again'' ''https://ex.com/rates'' (Some ''yesterday'') ''A''"

lemmas str_eval = S_def lower_def to_lower_full_def strip_def isspace_def is_upper_def is_lower_def
  is_digit_def is_alpha_def ascii_lower_def ci_eq_def

lemmas url_eval = str_eval canonicalize_url_def urlsplit_def lstrip_c0_def remove_unsafe_def split_scheme_def
  split_once_def brackets_ok_def find_scheme_def scheme_char_def
  splitnetloc_def delim_def checknetloc_def check_bracketed_host_def bracketed_host_def
  check_ipvfuture_def parse_qsl_def split_on.simps parse_field_def unquote_plus_def plus_to_space_def unquote_def
  is_hex_def hexval_def tracking_def tracking_prefixes_def urlencode_def quote_plus_def
  quote_byte_def always_safe_def hexdigit_def utf8_encode_cp_def cont_def urlunsplit_def
  uses_netloc_def

lemmas example_defs = lib0_def now0_def example_dates_def mk_item_def item_a_def item_b_def
  item_c_def item_d_def

lemma example_keys:
  "dedupe_key lib0 item_a = (S ''https://ex.com/fed'', S ''fed raises rates'')"
  "dedupe_key lib0 item_b = (S ''https://ex.com/fed'', S ''fed raises rates'')"
  "dedupe_key lib0 item_c = (S ''https://ex.com/team'', S ''local team wins'')"
  "dedupe_key lib0 item_d = (S ''https://ex.com/rates'', S ''rates again'')"
  by (simp_all add: dedupe_key_def example_defs url_eval)

definition item_f1 :: item where
  "item_f1 = mk_item ''f1'' ''Fed raises interest rates'' ''https://a.example/fed''
     (Some ''2024-01-10T00:00:00+00:00'') ''A''"

definition item_f2 :: item where
  "item_f2 = mk_item ''f2'' ''Fed raises interest rates again'' ''https://b.example/fed''
     (Some ''2024-01-04T00:00:00+00:00'') ''B''"

definition item_t :: item where
  "item_t = mk_item ''t1'' ''Local team wins championship'' ''https://c.example/team'' None ''C''"

definition item_s1 :: item where
  "item_s1 = mk_item ''s1'' ''Storm hits coast towns'' ''https://a.example/storm1'' None ''A''"

definition item_s2 :: item where
  "item_s2 = mk_item ''s2'' ''Storm hits island ports'' ''https://b.example/storm2'' None ''B''"

definition item_s3 :: item where
  "item_s3 = mk_item ''s3'' ''Storm hits coast ports'' ''https://c.example/storm3'' None ''C''"

lemmas tokenize_eval = tokenize_def str_eval word_char_def

lemma example_tokens:
  "tokenize (title item_f1) = [S ''fed'', S ''raises'', S ''interest'', S ''rates'']"
  "tokenize (title item_f2) = [S ''fed'', S ''raises'', S ''interest'', S ''rates'', S ''again'']"
  "tokenize (title item_t) = [S ''local'', S ''team'', S ''wins'', S ''championship'']"
  by (simp_all add: item_f1_def item_f2_def item_t_def mk_item_def tokenize_eval)

lemma jaccard_lists:
  "jaccard a b =
     (if a = [] \<or> b = [] then 0
      else of_nat (length (remdups (filter (\<lambda>x. x \<in> set b) a))) / of_nat (length (remdups (a @ b))))"
proof -
  have "set a \<inter> set b = set (filter (\<lambda>x. x \<in> set b) a)"
    by auto
  moreover have "set a \<union> set b = set (a @ b)"
    by simp
  ultimately show ?thesis
    unfolding jaccard_def Let_def by (simp only: card_set) auto
qed

lemma example_jaccard:
  "jaccard (tokenize (title item_f2)) (tokenize (title item_f1)) = 4 / 5"
  "jaccard (tokenize (title item_t)) (tokenize (title item_f1)) = 0"
  by (simp_all add: example_tokens jaccard_lists S_def)

lemma example_storm_tokens:
  "tokenize (title item_s1) = [S ''storm'', S ''hits'', S ''coast'', S ''towns'']"
  "tokenize (title item_s2) = [S ''storm'', S ''hits'', S ''island'', S ''ports'']"
  "tokenize (title item_s3) = [S ''storm'', S ''hits'', S ''coast'', S ''ports'']"
  by (simp_all add: item_s1_def item_s2_def item_s3_def mk_item_def tokenize_eval)

lemma example_storm_jaccard:
  "jaccard (tokenize (title item_s1)) (tokenize (title item_t)) = 0"
  "jaccard (tokenize (title item_s2)) (tokenize (title item_t)) = 0"
  "jaccard (tokenize (title item_s2)) (tokenize (title item_s1)) = 1 / 3"
  "jaccard (tokenize (title item_s3)) (tokenize (title item_t)) = 0"
  "jaccard (tokenize (title item_s3)) (tokenize (title item_s1)) = 3 / 5"
  "jaccard (tokenize (title item_s3)) (tokenize (title item_s2)) = 3 / 5"
  by (simp_all add: example_tokens example_storm_tokens jaccard_lists S_def)

definition mk_cluster :: "string list \<Rightarrow> string list \<Rightarrow> cluster" where
  "mk_cluster ids srcs =
     \<lparr>c_id = S ''0123456789ab'', c_headline = S ''Fed raises interest rates'',
      c_tokens = [S ''fed'', S ''raises'', S ''interest'', S ''rates''], c_items = map S ids,
      c_sources = set (map S srcs), c_max_weight = 1\<rparr>"

lemma example_newest:
  "newest_loop lib0 (id_to_item [item_f1, item_f2]) None [S ''f1''] = Some 1704844800000000"
  "newest_loop lib0 (id_to_item [item_f1, item_f2]) None [S ''f2''] = Some 1704326400000000"
  by (simp_all add: id_to_item_def item_f1_def item_f2_def example_defs S_def)

definition topic_fed :: topic where
  "topic_fed =
     \<lparr>t_id = S ''topic|Fed ra'', t_headline = S ''Fed raises interest rates again'', t_count = 2,
      t_sources = [S ''A'', S ''B''], t_items = [S ''f1'', S ''f2''], t_score = 5 / 2\<rparr>"

definition topic_team :: topic where
  "topic_team =
     \<lparr>t_id = S ''topic|Local '', t_headline = S ''Local team wins championship'', t_count = 1,
      t_sources = [S ''C''], t_items = [S ''t1''], t_score = 3 / 5\<rparr>"

lemma example_place:
  "place lib0 [] item_f1 = [new_cluster lib0 item_f1 (tokenize (title item_f1))]"
  "place lib0 [new_cluster lib0 item_f1 (tokenize (title item_f1))] item_f2 =
     [join_cluster item_f2 (tokenize (title item_f2))
        (new_cluster lib0 item_f1 (tokenize (title item_f1)))]"
  "place lib0 [join_cluster item_f2 (tokenize (title item_f2))
        (new_cluster lib0 item_f1 (tokenize (title item_f1)))] item_t =
     [join_cluster item_f2 (tokenize (title item_f2))
        (new_cluster lib0 item_f1 (tokenize (title item_f1))),
      new_cluster lib0 item_t (tokenize (title item_t))]"
proof -
  let ?c = "new_cluster lib0 item_f1 (tokenize (title item_f1))"
  let ?c' = "join_cluster item_f2 (tokenize (title item_f2)) ?c"
  show "place lib0 [] item_f1 = [?c]"
    by (simp add: place_def)
  have "jaccard (tokenize (title item_f2)) (c_tokens ?c) = 4 / 5"
    by (simp add: new_cluster_def example_jaccard)
  then show "place lib0 [?c] item_f2 = [?c']"
    by (simp add: place_def)
  have t: "c_tokens ?c' = tokenize (title item_f2)"
    by (simp add: join_cluster_def new_cluster_def Let_def item_f1_def item_f2_def mk_item_def S_def)
  have "jaccard (tokenize (title item_t)) (tokenize (title item_f2)) = 0"
    by (simp add: example_tokens jaccard_lists S_def)
  with t show "place lib0 [?c'] item_t = [?c', new_cluster lib0 item_t (tokenize (title item_t))]"
    by (simp add: place_def)
qed

lemma example_topics: "build_topics lib0 now0 [item_f1, item_f2, item_t] 10 = [topic_fed, topic_team]"
proof -
  let ?items = "[item_f1, item_f2, item_t]"
  let ?c1 = "join_cluster item_f2 (tokenize (title item_f2))
        (new_cluster lib0 item_f1 (tokenize (title item_f1)))"
  let ?c2 = "new_cluster lib0 item_t (tokenize (title item_t))"
  have cl: "cluster_items lib0 [] ?items = [?c1, ?c2]"
    by (simp add: example_place)
  have s1: "cluster_score lib0 now0 (id_to_item ?items) ?c1 = 5 / 2"
    by (simp add: cluster_score_def id_to_item_def join_cluster_def new_cluster_def recency_def
        age_hours_def item_f1_def item_f2_def item_t_def example_defs S_def Let_def)
  have s2: "cluster_score lib0 now0 (id_to_item ?items) ?c2 = 3 / 5"
    by (simp add: cluster_score_def id_to_item_def new_cluster_def recency_def
        age_hours_def item_f1_def item_f2_def item_t_def example_defs S_def Let_def)
  have e1: "emit (5 / 2) ?c1 = topic_fed"
    by (simp add: emit_def topic_fed_def join_cluster_def new_cluster_def round4_def Let_def
        item_f1_def item_f2_def example_defs S_def)
  have e2: "emit (3 / 5) ?c2 = topic_team"
    by (simp add: emit_def topic_team_def new_cluster_def round4_def Let_def
        item_t_def example_defs S_def)
  show ?thesis
    unfolding build_topics_def Let_def cl
    by (simp add: s1 s2 py_take_def e1 e2)
qed

lemma example_eleven:
  "map t_count (build_topics lib0 now0 (replicate 11 item_f1) 10) = [11]"
  "map (\<lambda>t. length (t_items t)) (build_topics lib0 now0 (replicate 11 item_f1) 10) = [10]"
proof -
  let ?c = "new_cluster lib0 item_f1 (tokenize (title item_f1))"
  have j: "jaccard (tokenize (title item_f1)) (tokenize (title item_f1)) = 1"
    by (simp add: example_tokens jaccard_lists S_def)
  have p: "place lib0 [c] item_f1 = [join_cluster item_f1 (tokenize (title item_f1)) c]"
    if "c_tokens c = tokenize (title item_f1)" for c
    using that j by (simp add: place_def)
  have k: "c_tokens (join_cluster item_f1 toks c) = c_tokens c" if "c_headline c = title item_f1" for c toks
    using that by (simp add: join_cluster_def Let_def)
  have h: "c_headline (join_cluster item_f1 toks c) = c_headline c" if "c_headline c = title item_f1" for c toks
    using that by (simp add: join_cluster_def Let_def)
  have n: "\<exists>c. cluster_items lib0 [c0] (replicate n item_f1) = [c] \<and>
            length (c_items c) = length (c_items c0) + n"
    if "c_tokens c0 = tokenize (title item_f1)" "c_headline c0 = title item_f1" for c0 n
    using that
  proof (induction n arbitrary: c0)
    case 0
    then show ?case by simp
  next
    case (Suc n)
    let ?c1 = "join_cluster item_f1 (tokenize (title item_f1)) c0"
    have "c_tokens ?c1 = tokenize (title item_f1)" "c_headline ?c1 = title item_f1"
      using Suc.prems by (simp_all add: k h)
    from Suc.IH [OF this] obtain c where "cluster_items lib0 [?c1] (replicate n item_f1) = [c]"
      and "length (c_items c) = length (c_items ?c1) + n"
      by blast
    then show ?case
      using p [OF Suc.prems(1)] by (simp add: join_cluster_def Let_def)
  qed
  have "c_tokens ?c = tokenize (title item_f1)" "c_headline ?c = title item_f1"
    by (simp_all add: new_cluster_def)
  from n [OF this, of 10] obtain c where c: "cluster_items lib0 [?c] (replicate 10 item_f1) = [c]"
    and l: "length (c_items c) = 11"
    by (auto simp: new_cluster_def)
  have "replicate 11 item_f1 = item_f1 # replicate 10 item_f1"
    by (simp add: numeral_eq_Suc)
  then have cl: "cluster_items lib0 [] (replicate 11 item_f1) = [c]"
    using c by (simp add: place_def)
  show "map t_count (build_topics lib0 now0 (replicate 11 item_f1) 10) = [11]"
    unfolding build_topics_def Let_def cl by (simp add: py_take_def emit_def l)
  show "map (\<lambda>t. length (t_items t)) (build_topics lib0 now0 (replicate 11 item_f1) 10) = [10]"
    unfolding build_topics_def Let_def cl by (simp add: py_take_def emit_def l)
qed

text \<open>
  A world with a generic feed \<open>a\<close>, a sitemap feed \<open>reuters\<close>, a generic feed \<open>x\<close>
  whose server answers 404, and a sitemap feed \<open>s\<close> whose index cannot be fetched. The
  sitemap lists one article whose location carries a tracking parameter and whose title
  has markup and a double space. \<open>world1\<close> differs from \<open>world0\<close> in the iteration
  order of sets only.
\<close>

definition no_entry :: entry where
  "no_entry =
     \<lparr>e_link = None, e_title = None, e_published = None, e_updated = None, e_created = None,
      e_pubDate = None, e_published_parsed = None, e_updated_parsed = None, e_summary = None,
      e_description = None, e_subtitle = None\<rparr>"

definition entry_a :: entry where
  "entry_a = no_entry\<lparr>e_link := Some (S ''https://a.example/fed?utm_source=rss''),
     e_title := Some (S ''Fed <b>raises</b>  rates''), e_summary := Some (S ''<p>Rates up</p>'')\<rparr>"

definition world0 :: world where
  "world0 =
     \<lparr>feedparser_parse =
        (\<lambda>u. if u = S ''https://a.example/rss''
             then Inr \<lparr>p_bozo = False, p_status = Some 200, p_entries = [entry_a, no_entry]\<rparr>
             else Inr \<lparr>p_bozo = True, p_status = Some 404, p_entries = []\<rparr>),
      fetch_sitemap_index =
        (\<lambda>u. if u = S ''https://r.example/index.xml''
             then Inr [\<lparr>sm_loc = Some (S '' https://r.example/news.xml ''), sm_lastmod = None\<rparr>]
             else Inl (S ''404 Client Error: Not Found for url: '' @ u)),
      fetch_urlset =
        (\<lambda>u. if u = S ''https://r.example/news.xml''
             then Inr [\<lparr>u_loc = Some (S ''https://r.example/a?utm_source=x''),
                        u_title = Some (S ''Fed  <b>holds</b> rates''),
                        u_publication_date = None\<rparr>]
             else Inl (S ''404 Client Error: Not Found for url: '' @ u)),
      set_order = remdups\<rparr>"

definition world1 :: world where
  "world1 = world0\<lparr>set_order := rev \<circ> remdups\<rparr>"

definition mk_feed :: "string \<Rightarrow> string \<Rightarrow> string \<Rightarrow> string list \<Rightarrow> feed_def" where
  "mk_feed i u t tg =
     \<lparr>feed_id = S i, feed_name = S i, feed_url = S u, feed_type = S t, feed_region = S ''Global'',
      feed_lang = S ''en'', feed_tags = map S tg, feed_weight = 1\<rparr>"

definition feed_a :: feed_def where
  "feed_a = mk_feed ''a'' ''https://a.example/rss'' ''rss'' [''Economy'']"

definition feed_r :: feed_def where
  "feed_r = mk_feed ''reuters'' ''https://r.example/index.xml'' ''reuters_news_sitemap_index'' [''World'']"

definition feed_x :: feed_def where
  "feed_x = mk_feed ''x'' ''https://x.example/rss'' ''rss'' []"

definition feed_s :: feed_def where
  "feed_s = mk_feed ''s'' ''https://s.example/index.xml'' ''reuters_news_sitemap_index'' []"

lemmas world_defs = world0_def world1_def mk_feed_def feed_a_def feed_r_def feed_x_def feed_s_def
  no_entry_def entry_a_def

lemmas html_eval = clean_html_def str_eval

lemma example_reuters:
  "parse_reuters_news_sitemap_index L W feed_r 40 =
     Inr [reuters_item L W feed_r (S ''https://r.example/a?utm_source=x'')
            (S ''Fed  <b>holds</b> rates'') None]"
  if "fetch_sitemap_index W = fetch_sitemap_index world0" "fetch_urlset W = fetch_urlset world0"
  using that
  by (simp add: parse_reuters_news_sitemap_index_def sitemap_entry_def et_find_text_def
      recent_sitemaps_def List.map_filter_def world_defs str_eval)

section \<open>Item ids and the canonical link\<close>

lemma rss_item_id:
  "rss_item L feed e = Some it \<Longrightarrow> item_id it = sha1 L (feed_id feed @ S ''|'' @ link it)"
  by (auto simp: rss_item_def Let_def split: if_splits)

lemma parse_rss_id:
  "parse_rss L W feed k = Inr items \<Longrightarrow> it \<in> set items \<Longrightarrow>
   item_id it = sha1 L (feed_id feed @ S ''|'' @ link it)"
  by (auto simp: parse_rss_def List.map_filter_def rss_item_id split: sum.splits)

text \<open>
  Claim C1 fails for the sitemap-index adapter. The generic adapter hashes the feed id
  with the canonical link it stores (\<open>parse_rss_id\<close>); the sitemap-index adapter hashes
  the feed id with the location as the sitemap gives it, and stores the canonicalized
  location. For the article of the example world, whose location carries
  \<open>utm_source\<close>, the id is the hash of the link with the tracking parameter and the
  link field is the link without it, whatever the hash function is.
\<close>

theorem reuters_id_hashes_raw_link:
  "\<exists>it. parse_reuters_news_sitemap_index L world0 feed_r 40 = Inr [it]
      \<and> item_id it = sha1 L (S ''reuters|https://r.example/a?utm_source=x'')
      \<and> link it = S ''https://r.example/a''
      \<and> feed_id feed_r @ S ''|'' @ link it = S ''reuters|https://r.example/a''"
proof -
  let ?it = "reuters_item L world0 feed_r (S ''https://r.example/a?utm_source=x'')
            (S ''Fed  <b>holds</b> rates'') None"
  have "parse_reuters_news_sitemap_index L world0 feed_r 40 = Inr [?it]"
    by (rule example_reuters) simp_all
  moreover have "item_id ?it = sha1 L (S ''reuters|https://r.example/a?utm_source=x'')"
    by (simp add: reuters_item_def world_defs S_def)
  moreover have l: "link ?it = S ''https://r.example/a''"
    by (simp add: reuters_item_def url_eval)
  moreover have "feed_id feed_r @ S ''|'' @ link ?it = S ''reuters|https://r.example/a''"
    unfolding l by (simp add: world_defs S_def)
  ultimately show ?thesis by blast
qed

section \<open>Runs with the same inputs\<close>

lemma example_main_reuters:
  assumes "fetch_sitemap_index W = fetch_sitemap_index world0" "fetch_urlset W = fetch_urlset world0"
  shows "main L W now0 [feed_r] 7 40 =
     Inr ([reuters_item L W feed_r (S ''https://r.example/a?utm_source=x'')
             (S ''Fed  <b>holds</b> rates'') None],
          build_topics L now0
            [reuters_item L W feed_r (S ''https://r.example/a?utm_source=x'')
               (S ''Fed  <b>holds</b> rates'') None] 10,
          [])"
proof -
  let ?it = "reuters_item L W feed_r (S ''https://r.example/a?utm_source=x'')
             (S ''Fed  <b>holds</b> rates'') None"
  have t: "feed_type feed_r = S ''reuters_news_sitemap_index''"
    "S ''reuters_news_sitemap_index'' \<noteq> S ''rss''"
    by (simp_all add: world_defs S_def)
  have f: "feeds_loop L W 40 [] [] [feed_r] = ([?it], [])"
    by (simp add: fetch_feed_def t example_reuters [OF assms])
  have p: "published ?it = None"
    by (simp add: reuters_item_def)
  have a: "filter_by_age L now0 [?it] 7 = Inr [?it]"
    using p by (simp add: filter_by_age_def timedelta_days_def datetime_sub_def datetime_min_def
        datetime_max_def now0_def)
  have d: "dedupe L [?it] = [?it]"
    by (simp add: dedupe_def Let_def)
  have s: "sort_items L [?it] = [?it]"
    by (simp add: sort_items_def)
  show ?thesis
    unfolding main_def f by (simp add: a d s Let_def)
qed

text \<open>
  Claim C2 fails on the tags of the items of a sitemap feed. The adapter builds them as
  \<open>list(set(feed.tags + ["Reuters"]))\<close>, and the order in which a set of strings is
  iterated changes with the hash seed of the process. \<open>world0\<close> and \<open>world1\<close> hold
  the same payloads and both iterate over each element of a set once; with the same
  feeds, defaults and clock the two runs return different item lists: the tags of the
  article are World, Reuters in one and Reuters, World in the other.
\<close>

theorem tags_order_differs_between_runs:
  "(\<forall>xs. distinct (set_order world0 xs) \<and> set (set_order world0 xs) = set xs)
   \<and> (\<forall>xs. distinct (set_order world1 xs) \<and> set (set_order world1 xs) = set xs)
   \<and> feedparser_parse world1 = feedparser_parse world0
   \<and> fetch_sitemap_index world1 = fetch_sitemap_index world0
   \<and> fetch_urlset world1 = fetch_urlset world0
   \<and> main lib0 world0 now0 [feed_r] 7 40 \<noteq> main lib0 world1 now0 [feed_r] 7 40"
proof -
  let ?it = "\<lambda>W. reuters_item lib0 W feed_r (S ''https://r.example/a?utm_source=x'')
             (S ''Fed  <b>holds</b> rates'') None"
  have o: "\<forall>xs. distinct (set_order world0 xs) \<and> set (set_order world0 xs) = set xs"
    "\<forall>xs. distinct (set_order world1 xs) \<and> set (set_order world1 xs) = set xs"
    by (simp_all add: world0_def world1_def)
  have w: "feedparser_parse world1 = feedparser_parse world0"
    "fetch_sitemap_index world1 = fetch_sitemap_index world0"
    "fetch_urlset world1 = fetch_urlset world0"
    by (simp_all add: world1_def)
  have "tags (?it world0) = [S ''World'', S ''Reuters'']"
    by (simp add: reuters_item_def world_defs S_def)
  moreover have "tags (?it world1) = [S ''Reuters'', S ''World'']"
    by (simp add: reuters_item_def world_defs S_def)
  ultimately have "tags (?it world0) \<noteq> tags (?it world1)"
    by (simp add: S_def)
  then have "?it world0 \<noteq> ?it world1"
    by auto
  then have "main lib0 world0 now0 [feed_r] 7 40 \<noteq> main lib0 world1 now0 [feed_r] 7 40"
    by (simp add: example_main_reuters w)
  with o w show ?thesis by blast
qed

section \<open>Titles and HTML stripping\<close>

text \<open>
  Claim C3 fails for the sitemap-index adapter. The generic adapter stores
  \<open>clean_html(title)\<close>; the sitemap-index adapter stores the title stripped of
  surrounding whitespace only. The title of the article of the example world keeps its
  markup and its double space, and the normalization changes it.
\<close>

theorem reuters_title_not_normalized:
  "\<exists>it. parse_reuters_news_sitemap_index L world0 feed_r 40 = Inr [it]
      \<and> title it = S ''Fed  <b>holds</b> rates''
      \<and> clean_html (title it) = S ''Fed holds rates''
      \<and> clean_html (title it) \<noteq> title it"
proof -
  let ?it = "reuters_item L world0 feed_r (S ''https://r.example/a?utm_source=x'')
            (S ''Fed  <b>holds</b> rates'') None"
  have "parse_reuters_news_sitemap_index L world0 feed_r 40 = Inr [?it]"
    by (rule example_reuters) simp_all
  moreover have t: "title ?it = S ''Fed  <b>holds</b> rates''"
    by (simp add: reuters_item_def str_eval)
  moreover have c: "clean_html (S ''Fed  <b>holds</b> rates'') = S ''Fed holds rates''"
    by (simp add: html_eval)
  moreover have "S ''Fed holds rates'' \<noteq> S ''Fed  <b>holds</b> rates''"
    by (simp add: S_def)
  ultimately show ?thesis by simp
qed

section \<open>Canonicalization: round trips of the encodings\<close>








lemma unquote_to_bytes_escape:
  "is_hex a \<Longrightarrow> is_hex b \<Longrightarrow>
   unquote_to_bytes (37 # a # b # r) = (hexval a * 16 + hexval b) # unquote_to_bytes r"
  by simp

























section \<open>Canonicalization: splitting what was joined\<close>






definition slashed :: "str \<Rightarrow> str" where
  "slashed pth = (if pth \<noteq> [] \<and> hd pth \<noteq> 47 then 47 # pth else pth)"

definition with_netloc :: "parts \<Rightarrow> bool" where
  "with_netloc p \<longleftrightarrow>
     netloc p \<noteq> [] \<or> scheme p \<in> set uses_netloc \<or> take 2 (path p) = [47, 47]"





section \<open>Canonicalization: what a split URL looks like\<close>




definition norm_path :: "parts \<Rightarrow> str" where
  "norm_path p = (if with_netloc p then slashed (path p) else path p)"












lemma slashed_hd: "slashed pth = [] \<or> hd (slashed pth) = 47 \<or> pth = slashed pth"
  by (simp add: slashed_def)

































lemma with_netloc_upd [simp]: "with_netloc (p\<lparr>query := e\<rparr>) = with_netloc p"
  by (simp add: with_netloc_def)

lemma norm_path_upd [simp]: "norm_path (p\<lparr>query := e\<rparr>) = norm_path p"
  by (simp add: norm_path_def)




lemma filter_kept:
  "filter (\<lambda>(k, v). \<not> tracking k) (filter (\<lambda>(k, v). \<not> tracking k) q) =
   filter (\<lambda>(k, v). \<not> tracking k) q"
  by simp








section \<open>Deduplication is stable and key-driven\<close>

fun firsts :: "('a \<Rightarrow> 'k) \<Rightarrow> 'k set \<Rightarrow> 'a list \<Rightarrow> 'a list" where
  "firsts f seen [] = []"
| "firsts f seen (x # xs) = (if f x \<in> seen then firsts f seen xs else x # firsts f (insert (f x) seen) xs)"

lemma dedupe_loop_firsts: "dedupe_loop L seen out items = out @ firsts (dedupe_key L) seen items"
  by (induction items arbitrary: seen out) (auto simp: Let_def)

lemma firsts_snoc:
  "firsts f seen (xs @ [x]) = firsts f seen xs @ (if f x \<in> seen \<union> f ` set xs then [] else [x])"
  by (induction xs arbitrary: seen) auto

lemma firsts_index:
  "firsts f {} xs = map (nth xs) (filter (\<lambda>i. f (xs ! i) \<notin> f ` set (take i xs)) [0..<length xs])"
proof (induction xs rule: rev_induct)
  case Nil
  show ?case by simp
next
  case (snoc x xs)
  have "filter (\<lambda>i. f ((xs @ [x]) ! i) \<notin> f ` set (take i (xs @ [x]))) [0..<length xs]
      = filter (\<lambda>i. f (xs ! i) \<notin> f ` set (take i xs)) [0..<length xs]"
    by (rule filter_cong) (auto simp: nth_append)
  moreover have "map (nth (xs @ [x])) (filter (\<lambda>i. f (xs ! i) \<notin> f ` set (take i xs)) [0..<length xs])
      = map (nth xs) (filter (\<lambda>i. f (xs ! i) \<notin> f ` set (take i xs)) [0..<length xs])"
    by (rule map_cong) (auto simp: nth_append)
  ultimately show ?case
    using snoc by (simp add: firsts_snoc)
qed

lemma firsts_keys: "set (map f (firsts f seen xs)) \<inter> seen = {}"
  by (induction xs arbitrary: seen) auto

lemma firsts_distinct: "distinct (map f (firsts f seen xs))"
proof (induction xs arbitrary: seen)
  case Nil
  show ?case by simp
next
  case (Cons x xs)
  show ?case
    using Cons[of seen] Cons[of "insert (f x) seen"] firsts_keys[of f "insert (f x) seen" xs]
    by auto
qed

lemma firsts_id: "distinct (map f xs) \<Longrightarrow> f ` set xs \<inter> seen = {} \<Longrightarrow> firsts f seen xs = xs"
  by (induction xs arbitrary: seen) auto

lemma firsts_subseq: "subseq (firsts f seen xs) xs"
  by (induction xs arbitrary: seen) auto

text \<open>
  Claim C5. Deduplication is stable and key-driven. The output is the input with exactly
  those items removed whose key (canonicalized link, lower-cased whitespace-collapsed
  title) already occurred at an earlier position, in input order; so the output is a
  subsequence of the input with pairwise distinct keys, and of several items with one key
  the first survives. The key does not mention the source, so this holds across sources;
  and when all keys differ, every item survives.
\<close>

theorem dedupe_first_seen:
  "dedupe L items =
     map (nth items)
       (filter (\<lambda>i. dedupe_key L (items ! i) \<notin> dedupe_key L ` set (take i items)) [0..<length items])
   \<and> subseq (dedupe L items) items
   \<and> distinct (map (dedupe_key L) (dedupe L items))
   \<and> dedupe_key L (it\<lparr>source_id := sid, source := sn\<rparr>) = dedupe_key L it
   \<and> (distinct (map (dedupe_key L) items) \<longrightarrow> dedupe L items = items)"
proof -
  let ?k = "dedupe_key L"
  have d: "dedupe L items = firsts ?k {} items"
    by (simp add: dedupe_def dedupe_loop_firsts)
  have a: "dedupe L items =
      map (nth items) (filter (\<lambda>i. ?k (items ! i) \<notin> ?k ` set (take i items)) [0..<length items])"
    unfolding d by (rule firsts_index)
  have b: "subseq (dedupe L items) items"
    unfolding d by (rule firsts_subseq)
  have c: "distinct (map ?k (dedupe L items))"
    unfolding d by (rule firsts_distinct)
  have e: "?k (it\<lparr>source_id := sid, source := sn\<rparr>) = ?k it"
    by (simp add: dedupe_key_def)
  have f: "distinct (map ?k items) \<longrightarrow> dedupe L items = items"
    unfolding d by (simp add: firsts_id)
  from a b c e f show ?thesis by blast
qed

text \<open>
  Two items of different sources with one link, whose titles are a Cyrillic word in upper
  and in lower case.
\<close>

definition item_m1 :: item where
  "item_m1 = (mk_item ''m1'' [] ''https://ex.com/m'' None ''A'')
     \<lparr>title := [0x41C, 0x41E, 0x421, 0x41A, 0x412, 0x410]\<rparr>"

definition item_m2 :: item where
  "item_m2 = (mk_item ''m2'' [] ''https://ex.com/m'' None ''B'')
     \<lparr>title := [0x43C, 0x43E, 0x441, 0x43A, 0x432, 0x430]\<rparr>"

lemma example_lower:
  "lower [0x41C, 0x41E, 0x421, 0x41A, 0x412, 0x410] = [0x43C, 0x43E, 0x441, 0x43A, 0x432, 0x430]"
  "lower [0x43C, 0x43E, 0x441, 0x43A, 0x432, 0x430] = [0x43C, 0x43E, 0x441, 0x43A, 0x432, 0x430]"
  "lower [0x44, 0x130] = [0x64, 0x69, 0x307]"
  "lower [0x212A] = [0x6B]"
  by (simp_all add: lower_def to_lower_full_def lower_table_def ascii_lower_def is_upper_def)

lemma example_keys_cyrillic:
  "dedupe_key lib0 item_m1 = (S ''https://ex.com/m'', [0x43C, 0x43E, 0x441, 0x43A, 0x432, 0x430])"
  "dedupe_key lib0 item_m2 = (S ''https://ex.com/m'', [0x43C, 0x43E, 0x441, 0x43A, 0x432, 0x430])"
proof -
  have c: "canonicalize_url lib0 (S ''https://ex.com/m'') = S ''https://ex.com/m''"
    by (simp add: url_eval)
  show "dedupe_key lib0 item_m1 = (S ''https://ex.com/m'', [0x43C, 0x43E, 0x441, 0x43A, 0x432, 0x430])"
    by (simp add: dedupe_key_def item_m1_def mk_item_def c strip_def isspace_def example_lower)
  show "dedupe_key lib0 item_m2 = (S ''https://ex.com/m'', [0x43C, 0x43E, 0x441, 0x43A, 0x432, 0x430])"
    by (simp add: dedupe_key_def item_m2_def mk_item_def c strip_def isspace_def example_lower)
qed

theorem dedupe_first_seen_witness:
  "distinct (map (dedupe_key lib0) [item_a, item_c, item_d]) \<and>
   dedupe lib0 [item_a, item_c, item_d] = [item_a, item_c, item_d] \<and>
   dedupe lib0 [item_a, item_b, item_c, item_b] = [item_a, item_c] \<and>
   source item_m1 \<noteq> source item_m2 \<and>
   dedupe lib0 [item_m1, item_a, item_m2] = [item_m1, item_a]"
proof -
  have h: "distinct (map (dedupe_key lib0) [item_a, item_c, item_d])"
    by (simp add: example_keys S_def)
  have "dedupe lib0 [item_a, item_c, item_d] = [item_a, item_c, item_d]"
    using dedupe_first_seen [of lib0 "[item_a, item_c, item_d]"] h by blast
  moreover have "dedupe lib0 [item_a, item_b, item_c, item_b] = [item_a, item_c]"
    by (simp add: dedupe_def example_keys S_def)
  moreover have "source item_m1 \<noteq> source item_m2"
    by (simp add: item_m1_def item_m2_def mk_item_def S_def)
  moreover have "dedupe lib0 [item_m1, item_a, item_m2] = [item_m1, item_a]"
    by (simp add: dedupe_def example_keys example_keys_cyrillic S_def)
  ultimately show ?thesis using h by blast
qed

section \<open>The age filter\<close>

lemma filter_loop_filter:
  "filter_loop L cutoff out items =
     out @ filter (\<lambda>it. absent it \<or> unparseable L it \<or> not_before L cutoff it) items"
  by (induction items arbitrary: out)
     (auto simp: absent_def unparseable_def not_before_def split: option.splits)

lemma filter_by_age_filter:
  "cutoff_ok now d \<Longrightarrow>
   filter_by_age L now items d =
     Inr (filter (\<lambda>it. absent it \<or> unparseable L it \<or> not_before L (now - days d) it) items)"
  by (simp add: filter_by_age_def timedelta_days_def datetime_sub_def cutoff_ok_def days_def
      filter_loop_filter)

lemma filter_by_age_overflow: "\<not> cutoff_ok now d \<Longrightarrow> filter_by_age L now items d = Inl OverflowError"
  by (auto simp: filter_by_age_def timedelta_days_def datetime_sub_def cutoff_ok_def days_def)

text \<open>
  Claim C6, as the code has it. The cutoff \<open>now - max_age_days\<close> is computed first, and
  it has to be a datetime (between the years 1 and 9999, from at most 999999999 days).
  Where it is one, the age filter returns exactly the items whose published value is
  absent, or recorded but rejected by the parser, or parsed to a time not before the
  cutoff; so with \<open>max_age_days = 7\<close> an item published 8 days ago is dropped, one
  published 6 days ago is kept, and an item with no published value is kept. Where it
  is not one, the filter raises \<open>OverflowError\<close> and no item is kept, not even one
  without a published value.
\<close>

theorem filter_by_age_keeps:
  "filter_by_age L now items d =
     (if cutoff_ok now d
      then Inr (filter (\<lambda>it. absent it \<or> unparseable L it \<or> not_before L (now - days d) it) items)
      else Inl OverflowError)
   \<and> (\<forall>it p. cutoff_ok now 7 \<and> published it = Some p \<and> p \<noteq> [] \<and>
          dateparse L p = Some (now - days 8) \<longrightarrow> filter_by_age L now [it] 7 = Inr [])
   \<and> (\<forall>it p. cutoff_ok now 7 \<and> published it = Some p \<and> dateparse L p = Some (now - days 6)
          \<longrightarrow> filter_by_age L now [it] 7 = Inr [it])
   \<and> (\<forall>it. cutoff_ok now d \<and> published it = None \<longrightarrow> filter_by_age L now [it] d = Inr [it])"
proof -
  have a: "filter_by_age L now items d =
     (if cutoff_ok now d
      then Inr (filter (\<lambda>it. absent it \<or> unparseable L it \<or> not_before L (now - days d) it) items)
      else Inl OverflowError)"
    by (simp add: filter_by_age_filter filter_by_age_overflow)
  have b: "filter_by_age L now [it] 7 = Inr []"
    if "cutoff_ok now 7" "published it = Some p" "p \<noteq> []" "dateparse L p = Some (now - days 8)"
    for it p
    unfolding filter_by_age_filter [OF that(1)]
    using that by (simp add: absent_def unparseable_def not_before_def days_def)
  have c: "filter_by_age L now [it] 7 = Inr [it]"
    if "cutoff_ok now 7" "published it = Some p" "dateparse L p = Some (now - days 6)" for it p
    unfolding filter_by_age_filter [OF that(1)]
    using that by (simp add: absent_def unparseable_def not_before_def days_def)
  have e: "filter_by_age L now [it] d = Inr [it]" if "cutoff_ok now d" "published it = None" for it
    unfolding filter_by_age_filter [OF that(1)]
    using that by (simp add: absent_def)
  from a b c e show ?thesis by blast
qed

text \<open>
  On 2024-01-10 a cutoff 738895 days back would be the day before 0001-01-01: the filter
  raises, and the item without a published value is not kept.
\<close>

theorem filter_by_age_raises:
  "published item_b = None \<and> filter_by_age lib0 now0 [item_b] 738895 = Inl OverflowError"
  by (simp add: filter_by_age_def timedelta_days_def datetime_sub_def datetime_min_def
      now0_def item_b_def mk_item_def)

theorem filter_by_age_keeps_witness:
  "cutoff_ok now0 7
   \<and> filter_by_age lib0 now0 [item_a, item_b, item_c, item_d] 7 = Inr [item_a, item_b, item_d]
   \<and> filter_by_age lib0 now0 [item_c] 7 = Inr []
   \<and> filter_by_age lib0 now0 [item_a] 7 = Inr [item_a]
   \<and> filter_by_age lib0 now0 [item_b] 7 = Inr [item_b]
   \<and> \<not> cutoff_ok now0 738895
   \<and> filter_by_age lib0 now0 [item_a, item_b, item_c, item_d] 738895 = Inl OverflowError"
proof -
  have ok: "cutoff_ok now0 7"
    by (simp add: cutoff_ok_def now0_def days_def datetime_min_def datetime_max_def)
  have no: "\<not> cutoff_ok now0 738895"
    by (simp add: cutoff_ok_def now0_def days_def datetime_min_def datetime_max_def)
  note th = filter_by_age_keeps [of lib0 now0 _ 7]
  have "filter_by_age lib0 now0 [item_a, item_b, item_c, item_d] 7 =
      Inr (filter (\<lambda>it. absent it \<or> unparseable lib0 it \<or> not_before lib0 (now0 - days 7) it)
             [item_a, item_b, item_c, item_d])"
    using th [of "[item_a, item_b, item_c, item_d]"] ok by simp
  also have "filter (\<lambda>it. absent it \<or> unparseable lib0 it \<or> not_before lib0 (now0 - days 7) it)
             [item_a, item_b, item_c, item_d] = [item_a, item_b, item_d]"
    by (simp add: absent_def unparseable_def not_before_def days_def example_defs S_def)
  finally have a: "filter_by_age lib0 now0 [item_a, item_b, item_c, item_d] 7 =
      Inr [item_a, item_b, item_d]" .
  have pc: "published item_c = Some (S ''2024-01-02T00:00:00+00:00'')"
    "S ''2024-01-02T00:00:00+00:00'' \<noteq> []"
    "dateparse lib0 (S ''2024-01-02T00:00:00+00:00'') = Some (now0 - days 8)"
    by (simp_all add: example_defs days_def S_def)
  have c: "filter_by_age lib0 now0 [item_c] 7 = Inr []"
    using th [of "[item_c]"] ok pc by blast
  have pa: "published item_a = Some (S ''2024-01-04T00:00:00+00:00'')"
    "dateparse lib0 (S ''2024-01-04T00:00:00+00:00'') = Some (now0 - days 6)"
    by (simp_all add: example_defs days_def S_def)
  have d: "filter_by_age lib0 now0 [item_a] 7 = Inr [item_a]"
    using th [of "[item_a]"] ok pa by blast
  have pb: "published item_b = None"
    by (simp add: example_defs)
  have b: "filter_by_age lib0 now0 [item_b] 7 = Inr [item_b]"
    using th [of "[item_b]"] ok pb by blast
  have e: "filter_by_age lib0 now0 [item_a, item_b, item_c, item_d] 738895 = Inl OverflowError"
    using filter_by_age_keeps [of lib0 now0 "[item_a, item_b, item_c, item_d]" 738895] no by simp
  from ok a c d b no e show ?thesis by blast
qed

section \<open>Clustering is greedy and first-fit\<close>

definition qualifies :: "item \<Rightarrow> cluster \<Rightarrow> bool" where
  "qualifies it c \<longleftrightarrow> 55 / 100 \<le> jaccard (tokenize (title it)) (c_tokens c)"

lemma assign_none:
  "(assign it toks cs = None) = (\<forall>c \<in> set cs. \<not> 55 / 100 \<le> jaccard toks (c_tokens c))"
  by (induction cs) auto

lemma assign_first:
  "i < length cs \<Longrightarrow> 55 / 100 \<le> jaccard toks (c_tokens (cs ! i)) \<Longrightarrow>
   (\<forall>j<i. \<not> 55 / 100 \<le> jaccard toks (c_tokens (cs ! j))) \<Longrightarrow>
   assign it toks cs = Some (cs[i := join_cluster it toks (cs ! i)])"
proof (induction cs arbitrary: i)
  case Nil
  then show ?case by simp
next
  case (Cons c cs)
  show ?case
  proof (cases i)
    case 0
    with Cons.prems show ?thesis by simp
  next
    case (Suc k)
    from Cons.prems(3) Suc have c: "\<not> 55 / 100 \<le> jaccard toks (c_tokens c)"
      by auto
    have "\<forall>j<k. \<not> 55 / 100 \<le> jaccard toks (c_tokens (cs ! j))"
      using Cons.prems(3) Suc by auto
    with Cons.prems Suc have "assign it toks cs = Some (cs[k := join_cluster it toks (cs ! k)])"
      by (intro Cons.IH) auto
    with c Suc show ?thesis by simp
  qed
qed

lemma cluster_items_snoc:
  "cluster_items L cs (items @ [it]) = place L (cluster_items L cs items) it"
  by (induction items arbitrary: cs) auto

text \<open>
  Claim C7. Clustering is single-pass, greedy and first-fit. The clusters after the items
  \<open>items @ [it]\<close> are those after \<open>items\<close> with \<open>it\<close> placed; placing an item
  that no cluster qualifies for (similarity at least 0.55 between the item's tokens and
  the cluster's representative tokens) appends a singleton cluster made of the item;
  otherwise the item joins the first qualifying cluster in creation order and no other
  cluster changes. On joining, headline and representative tokens become the item's
  exactly when its title is strictly longer than the headline. The similarity is
  intersection over union of the token sets, and 0 when either set is empty.
\<close>

theorem clustering_first_fit:
  "cluster_items L cs [] = cs
   \<and> cluster_items L cs (items @ [it]) = place L (cluster_items L cs items) it
   \<and> ((\<forall>c \<in> set cs. \<not> qualifies it c) \<longrightarrow>
        place L cs it = cs @ [new_cluster L it (tokenize (title it))])
   \<and> (i < length cs \<and> qualifies it (cs ! i) \<and> (\<forall>j<i. \<not> qualifies it (cs ! j)) \<longrightarrow>
        place L cs it = cs[i := join_cluster it (tokenize (title it)) (cs ! i)])
   \<and> c_headline (new_cluster L it toks) = title it
   \<and> c_tokens (new_cluster L it toks) = toks
   \<and> c_items (new_cluster L it toks) = [item_id it]
   \<and> c_sources (new_cluster L it toks) = {source it}
   \<and> c_items (join_cluster it toks c) = c_items c @ [item_id it]
   \<and> c_headline (join_cluster it toks c) =
        (if length (c_headline c) < length (title it) then title it else c_headline c)
   \<and> c_tokens (join_cluster it toks c) =
        (if length (c_headline c) < length (title it) then toks else c_tokens c)
   \<and> jaccard a b =
        (if set a = {} \<or> set b = {} then 0
         else of_nat (card (set a \<inter> set b)) / of_nat (card (set a \<union> set b)))"
proof -
  have p1: "place L cs it = cs @ [new_cluster L it (tokenize (title it))]"
    if "\<forall>c \<in> set cs. \<not> qualifies it c"
  proof -
    from that have "assign it (tokenize (title it)) cs = None"
      by (simp add: assign_none qualifies_def)
    then show ?thesis by (simp add: place_def)
  qed
  have p2: "place L cs it = cs[i := join_cluster it (tokenize (title it)) (cs ! i)]"
    if "i < length cs \<and> qualifies it (cs ! i) \<and> (\<forall>j<i. \<not> qualifies it (cs ! j))"
  proof -
    from that have "assign it (tokenize (title it)) cs =
        Some (cs[i := join_cluster it (tokenize (title it)) (cs ! i)])"
      by (intro assign_first) (auto simp: qualifies_def)
    then show ?thesis by (simp add: place_def)
  qed
  have j: "jaccard a b =
        (if set a = {} \<or> set b = {} then 0
         else of_nat (card (set a \<inter> set b)) / of_nat (card (set a \<union> set b)))"
    by (simp add: jaccard_def Let_def)
  have n: "c_headline (new_cluster L it toks) = title it"
    "c_tokens (new_cluster L it toks) = toks"
    "c_items (new_cluster L it toks) = [item_id it]"
    "c_sources (new_cluster L it toks) = {source it}"
    by (simp_all add: new_cluster_def)
  have k: "c_items (join_cluster it toks c) = c_items c @ [item_id it]"
    "c_headline (join_cluster it toks c) =
        (if length (c_headline c) < length (title it) then title it else c_headline c)"
    "c_tokens (join_cluster it toks c) =
        (if length (c_headline c) < length (title it) then toks else c_tokens c)"
    by (simp_all add: join_cluster_def Let_def)
  show ?thesis
    using p1 p2 j n k cluster_items_snoc [of L cs items it] by simp
qed

theorem clustering_first_fit_witness:
  "place lib0 [] item_f1 = [new_cluster lib0 item_f1 (tokenize (title item_f1))]
   \<and> qualifies item_f2 (new_cluster lib0 item_f1 (tokenize (title item_f1)))
   \<and> place lib0 [new_cluster lib0 item_f1 (tokenize (title item_f1))] item_f2 =
       [join_cluster item_f2 (tokenize (title item_f2))
          (new_cluster lib0 item_f1 (tokenize (title item_f1)))]
   \<and> c_headline (join_cluster item_f2 (tokenize (title item_f2))
          (new_cluster lib0 item_f1 (tokenize (title item_f1)))) = title item_f2
   \<and> \<not> qualifies item_t (new_cluster lib0 item_f1 (tokenize (title item_f1)))
   \<and> place lib0 [new_cluster lib0 item_f1 (tokenize (title item_f1))] item_t =
       [new_cluster lib0 item_f1 (tokenize (title item_f1)),
        new_cluster lib0 item_t (tokenize (title item_t))]
   \<and> cluster_items lib0 [] [item_t, item_s1, item_s2] =
       [new_cluster lib0 item_t (tokenize (title item_t)),
        new_cluster lib0 item_s1 (tokenize (title item_s1)),
        new_cluster lib0 item_s2 (tokenize (title item_s2))]
   \<and> \<not> qualifies item_s3 (new_cluster lib0 item_t (tokenize (title item_t)))
   \<and> qualifies item_s3 (new_cluster lib0 item_s1 (tokenize (title item_s1)))
   \<and> qualifies item_s3 (new_cluster lib0 item_s2 (tokenize (title item_s2)))
   \<and> cluster_items lib0 [] [item_t, item_s1, item_s2, item_s3] =
       [new_cluster lib0 item_t (tokenize (title item_t)),
        join_cluster item_s3 (tokenize (title item_s3))
          (new_cluster lib0 item_s1 (tokenize (title item_s1))),
        new_cluster lib0 item_s2 (tokenize (title item_s2))]
   \<and> c_items (join_cluster item_s3 (tokenize (title item_s3))
          (new_cluster lib0 item_s1 (tokenize (title item_s1)))) = [S ''s1'', S ''s3'']
   \<and> c_headline (join_cluster item_s3 (tokenize (title item_s3))
          (new_cluster lib0 item_s1 (tokenize (title item_s1)))) = title item_s1"
proof -
  let ?c = "new_cluster lib0 item_f1 (tokenize (title item_f1))"
  let ?ct = "new_cluster lib0 item_t (tokenize (title item_t))"
  let ?c1 = "new_cluster lib0 item_s1 (tokenize (title item_s1))"
  let ?c2 = "new_cluster lib0 item_s2 (tokenize (title item_s2))"
  let ?j = "join_cluster item_s3 (tokenize (title item_s3)) ?c1"
  have q2: "qualifies item_f2 ?c"
    by (simp add: qualifies_def new_cluster_def example_jaccard)
  have q3: "\<not> qualifies item_t ?c"
    by (simp add: qualifies_def new_cluster_def example_jaccard)
  have a: "place lib0 [] item_f1 = [?c]"
    using clustering_first_fit [of lib0 "[]" "[]" item_f1] by simp
  have b: "place lib0 [?c] item_f2 = [join_cluster item_f2 (tokenize (title item_f2)) ?c]"
    using clustering_first_fit [of lib0 "[?c]" "[]" item_f2 0] q2 by simp
  have h: "c_headline (join_cluster item_f2 (tokenize (title item_f2)) ?c) = title item_f2"
    using clustering_first_fit [where it = item_f2 and toks = "tokenize (title item_f2)" and c = ?c]
    by (simp add: new_cluster_def item_f1_def item_f2_def mk_item_def S_def)
  have c: "place lib0 [?c] item_t = [?c, new_cluster lib0 item_t (tokenize (title item_t))]"
    using clustering_first_fit [of lib0 "[?c]" "[]" item_t] q3 by simp
  have n1: "\<not> qualifies item_s1 ?ct"
    and n2: "\<not> qualifies item_s2 ?ct" "\<not> qualifies item_s2 ?c1"
    and n3: "\<not> qualifies item_s3 ?ct"
    and y3: "qualifies item_s3 ?c1" "qualifies item_s3 ?c2"
    by (simp_all add: qualifies_def new_cluster_def example_storm_jaccard)
  have p0: "place lib0 [] item_t = [?ct]"
    using clustering_first_fit [of lib0 "[]" "[]" item_t] by simp
  have p1: "place lib0 [?ct] item_s1 = [?ct, ?c1]"
    using clustering_first_fit [of lib0 "[?ct]" "[]" item_s1] n1 by simp
  have p2: "place lib0 [?ct, ?c1] item_s2 = [?ct, ?c1, ?c2]"
    using clustering_first_fit [of lib0 "[?ct, ?c1]" "[]" item_s2] n2 by simp
  have three: "cluster_items lib0 [] [item_t, item_s1, item_s2] = [?ct, ?c1, ?c2]"
    by (simp add: p0 p1 p2)
  have "\<forall>j<1. \<not> qualifies item_s3 ([?ct, ?c1, ?c2] ! j)"
    using n3 by simp
  then have p3: "place lib0 [?ct, ?c1, ?c2] item_s3 = [?ct, ?j, ?c2]"
    using clustering_first_fit [of lib0 "[?ct, ?c1, ?c2]" "[]" item_s3 1] y3 by simp
  have four: "cluster_items lib0 [] [item_t, item_s1, item_s2, item_s3] = [?ct, ?j, ?c2]"
    by (simp add: p0 p1 p2 p3)
  have i: "c_items ?j = [S ''s1'', S ''s3'']"
    using clustering_first_fit [where it = item_s3 and toks = "tokenize (title item_s3)" and c = ?c1]
    by (simp add: new_cluster_def item_s1_def item_s3_def mk_item_def)
  have k: "c_headline ?j = title item_s1"
    using clustering_first_fit [where it = item_s3 and toks = "tokenize (title item_s3)" and c = ?c1]
    by (simp add: new_cluster_def item_s1_def item_s3_def mk_item_def S_def)
  from a b h c q2 q3 three n3 y3 four i k show ?thesis
    by blast
qed

section \<open>Failures of single feeds\<close>








section \<open>Topics are consistent\<close>

definition cluster_ok :: "str set \<Rightarrow> cluster \<Rightarrow> bool" where
  "cluster_ok ids c \<longleftrightarrow>
     c_items c \<noteq> [] \<and> set (c_items c) \<subseteq> ids \<and> finite (c_sources c) \<and> c_sources c \<noteq> {}"

lemma join_cluster_ok: "cluster_ok ids c \<Longrightarrow> item_id it \<in> ids \<Longrightarrow> cluster_ok ids (join_cluster it toks c)"
  by (simp add: cluster_ok_def join_cluster_def Let_def)

lemma new_cluster_ok: "item_id it \<in> ids \<Longrightarrow> cluster_ok ids (new_cluster L it toks)"
  by (simp add: cluster_ok_def new_cluster_def)

lemma assign_ok:
  "assign it toks cs = Some cs' \<Longrightarrow> list_all (cluster_ok ids) cs \<Longrightarrow> item_id it \<in> ids \<Longrightarrow>
   list_all (cluster_ok ids) cs'"
  by (induction cs arbitrary: cs') (auto simp: join_cluster_ok split: if_splits)

lemma place_ok:
  "list_all (cluster_ok ids) cs \<Longrightarrow> item_id it \<in> ids \<Longrightarrow> list_all (cluster_ok ids) (place L cs it)"
  by (auto simp: place_def Let_def new_cluster_ok assign_ok split: option.splits)

lemma cluster_items_ok:
  "list_all (cluster_ok ids) cs \<Longrightarrow> item_id ` set items \<subseteq> ids \<Longrightarrow>
   list_all (cluster_ok ids) (cluster_items L cs items)"
  by (induction items arbitrary: cs) (auto simp: place_ok)

lemma assign_members:
  "assign it toks cs = Some cs' \<Longrightarrow>
   sum_list (map (\<lambda>c. length (c_items c)) cs') = Suc (sum_list (map (\<lambda>c. length (c_items c)) cs))"
  by (induction cs arbitrary: cs') (auto simp: join_cluster_def Let_def split: if_splits)

lemma place_members:
  "sum_list (map (\<lambda>c. length (c_items c)) (place L cs it)) =
   Suc (sum_list (map (\<lambda>c. length (c_items c)) cs))"
  by (auto simp: place_def Let_def new_cluster_def assign_members split: option.splits)

lemma cluster_items_members:
  "sum_list (map (\<lambda>c. length (c_items c)) (cluster_items L cs items)) =
   sum_list (map (\<lambda>c. length (c_items c)) cs) + length items"
  by (induction items arbitrary: cs) (auto simp: place_members)

lemma set_py_take: "set (py_take k xs) \<subseteq> set xs"
  by (auto simp: py_take_def dest: in_set_takeD)

lemma build_topics_from_cluster:
  "t \<in> set (build_topics L now items top_k) \<Longrightarrow>
   \<exists>c \<in> set (cluster_items L [] items). \<exists>s. t = emit s c"
proof -
  assume "t \<in> set (build_topics L now items top_k)"
  then obtain s c where t: "t = emit s c"
    and "(s, c) \<in> set (py_take top_k (sort_key (\<lambda>(s, c). - s)
          (map (\<lambda>c. (cluster_score L now (id_to_item items) c, c)) (cluster_items L [] items))))"
    by (auto simp: build_topics_def Let_def)
  then have "(s, c) \<in> set (map (\<lambda>c. (cluster_score L now (id_to_item items) c, c))
      (cluster_items L [] items))"
    using set_py_take by fastforce
  then have "c \<in> set (cluster_items L [] items)"
    by auto
  with t show ?thesis by blast
qed

lemma emit_ok:
  assumes "cluster_ok ids c"
  shows "t_count (emit s c) = length (c_items c)" "t_items (emit s c) = take 10 (c_items c)"
    "1 \<le> t_count (emit s c)" "t_sources (emit s c) \<noteq> []" "length (t_sources (emit s c)) \<le> 10"
    "set (t_sources (emit s c)) \<subseteq> c_sources c" "set (t_items (emit s c)) \<subseteq> ids"
proof -
  from assms have f: "finite (c_sources c)" and n: "c_sources c \<noteq> {}"
    and i: "c_items c \<noteq> []" and s: "set (c_items c) \<subseteq> ids"
    by (auto simp: cluster_ok_def)
  from f n have "sorted_list_of_set (c_sources c) \<noteq> []"
    by (simp add: sorted_list_of_set_eq_Nil_iff)
  then show "t_sources (emit s c) \<noteq> []"
    by (simp add: emit_def)
  show "set (t_sources (emit s c)) \<subseteq> c_sources c"
    using f by (auto simp: emit_def dest: in_set_takeD)
  show "set (t_items (emit s c)) \<subseteq> ids"
    using s by (auto simp: emit_def dest: in_set_takeD)
  from i show "1 \<le> t_count (emit s c)"
    by (cases "c_items c") (simp_all add: emit_def)
qed (simp_all add: emit_def)

text \<open>
  Claim C10. Every topic that \<open>build_topics\<close> returns comes from a cluster of
  the clustering of the input. Its count is the number of members of that cluster and is
  at least one, its item list is the first ten member ids (so the count can exceed the
  length of the list), its source list is not empty, has at most ten entries and holds
  sources of the cluster, and every id in its item list is the id of an input item. The
  member counts of all clusters add up to the number of input items.
\<close>

theorem topics_consistent:
  "(\<forall>t \<in> set (build_topics L now items top_k).
      \<exists>c \<in> set (cluster_items L [] items).
        t_count t = length (c_items c) \<and> t_items t = take 10 (c_items c) \<and> 1 \<le> t_count t \<and>
        length (t_items t) \<le> 10 \<and> length (t_items t) \<le> t_count t \<and>
        t_sources t \<noteq> [] \<and> length (t_sources t) \<le> 10 \<and> set (t_sources t) \<subseteq> c_sources c \<and>
        set (t_items t) \<subseteq> item_id ` set items)
   \<and> sum_list (map (\<lambda>c. length (c_items c)) (cluster_items L [] items)) = length items"
proof (intro conjI ballI)
  fix t
  assume "t \<in> set (build_topics L now items top_k)"
  then obtain c s where c: "c \<in> set (cluster_items L [] items)" and t: "t = emit s c"
    using build_topics_from_cluster by blast
  have "list_all (cluster_ok (item_id ` set items)) (cluster_items L [] items)"
    by (rule cluster_items_ok) simp_all
  with c have ok: "cluster_ok (item_id ` set items) c"
    by (simp add: list_all_iff)
  have "t_count t = length (c_items c) \<and> t_items t = take 10 (c_items c) \<and> 1 \<le> t_count t \<and>
        length (t_items t) \<le> 10 \<and> length (t_items t) \<le> t_count t \<and>
        t_sources t \<noteq> [] \<and> length (t_sources t) \<le> 10 \<and> set (t_sources t) \<subseteq> c_sources c \<and>
        set (t_items t) \<subseteq> item_id ` set items"
    unfolding t using emit_ok [OF ok, of s] by simp
  with c show "\<exists>c \<in> set (cluster_items L [] items).
        t_count t = length (c_items c) \<and> t_items t = take 10 (c_items c) \<and> 1 \<le> t_count t \<and>
        length (t_items t) \<le> 10 \<and> length (t_items t) \<le> t_count t \<and>
        t_sources t \<noteq> [] \<and> length (t_sources t) \<le> 10 \<and> set (t_sources t) \<subseteq> c_sources c \<and>
        set (t_items t) \<subseteq> item_id ` set items"
    by blast
next
  show "sum_list (map (\<lambda>c. length (c_items c)) (cluster_items L [] items)) = length items"
    by (simp add: cluster_items_members)
qed

theorem topics_consistent_witness:
  "topic_fed \<in> set (build_topics lib0 now0 [item_f1, item_f2, item_t] 10)
   \<and> 1 \<le> t_count topic_fed \<and> length (t_items topic_fed) \<le> t_count topic_fed
   \<and> t_sources topic_fed \<noteq> [] \<and> length (t_sources topic_fed) \<le> 10
   \<and> set (t_items topic_fed) \<subseteq> item_id ` set [item_f1, item_f2, item_t]
   \<and> sum_list (map (\<lambda>c. length (c_items c)) (cluster_items lib0 [] [item_f1, item_f2, item_t])) = 3
   \<and> map t_count (build_topics lib0 now0 (replicate 11 item_f1) 10) = [11]
   \<and> map (\<lambda>t. length (t_items t)) (build_topics lib0 now0 (replicate 11 item_f1) 10) = [10]"
proof -
  have m: "topic_fed \<in> set (build_topics lib0 now0 [item_f1, item_f2, item_t] 10)"
    by (simp add: example_topics)
  note th = topics_consistent [of lib0 now0 "[item_f1, item_f2, item_t]" 10]
  from th m have "1 \<le> t_count topic_fed \<and> length (t_items topic_fed) \<le> t_count topic_fed
   \<and> t_sources topic_fed \<noteq> [] \<and> length (t_sources topic_fed) \<le> 10
   \<and> set (t_items topic_fed) \<subseteq> item_id ` set [item_f1, item_f2, item_t]"
    by blast
  moreover from th
  have "sum_list (map (\<lambda>c. length (c_items c)) (cluster_items lib0 [] [item_f1, item_f2, item_t])) = 3"
    by simp
  ultimately show ?thesis
    using m example_eleven by blast
qed

end
